theory Spec2Isabelle
  imports Main
begin

section \<open>Python values, dictionaries and classes\<close>

text \<open>
  The values that flow through the endpoint: \<open>None\<close>, booleans, integers, strings, bytes,
  lists, tuples, dictionaries with string keys, and the uploaded \<open>File(type, body, name)\<close>
  named tuple of the web framework.
\<close>

datatype pyval =
    PNone
  | PBool bool
  | PInt int
  | PStr string
  | PBytes string
  | PList "pyval list"
  | PTuple "pyval list"
  | PDict "(string \<times> pyval) list"
  | PFile string string string

type_synonym pydict = "(string \<times> pyval) list"

text \<open>
  A Python \<open>dict\<close> keeps its keys in insertion order. It is an association list with
  one binding per key: \<open>d[k] = v\<close> replaces the value of a key that is present, leaving the
  key where it is, and appends a binding for a new key at the end.
\<close>

fun dict_get :: "('k \<times> 'v) list \<Rightarrow> 'k \<Rightarrow> 'v option" where
  "dict_get [] k = None"
| "dict_get ((k', v) # d) k = (if k' = k then Some v else dict_get d k)"

definition dict_contains :: "('k \<times> 'v) list \<Rightarrow> 'k \<Rightarrow> bool" where
  "dict_contains d k = (dict_get d k \<noteq> None)"

fun dict_set :: "'k \<Rightarrow> 'v \<Rightarrow> ('k \<times> 'v) list \<Rightarrow> ('k \<times> 'v) list" where
  "dict_set k v [] = [(k, v)]"
| "dict_set k v ((k', v') # d) =
     (if k' = k then (k, v) # d else (k', v') # dict_set k v d)"

text \<open>\<open>d.update(other)\<close>: the bindings of \<open>other\<close> are stored into \<open>d\<close> in their order.\<close>

fun dict_update :: "('k \<times> 'v) list \<Rightarrow> ('k \<times> 'v) list \<Rightarrow> ('k \<times> 'v) list" where
  "dict_update d [] = d"
| "dict_update d ((k, v) # other) = dict_update (dict_set k v d) other"

definition dict_keys :: "('k \<times> 'v) list \<Rightarrow> 'k list" where
  "dict_keys d = map fst d"

text \<open>
  A class is its name and its direct bases; \<open>issubclass c k\<close> holds when \<open>k\<close> is \<open>c\<close> or is
  reached through the bases of \<open>c\<close>.
\<close>

datatype pyclass = PyClass string "pyclass list"

fun issubclass :: "pyclass \<Rightarrow> pyclass \<Rightarrow> bool" where
  "issubclass (PyClass n bs) k = (PyClass n bs = k \<or> list_ex (\<lambda>b. issubclass b k) bs)"

definition object_cls :: pyclass where
  "object_cls = PyClass ''object'' []"

definition type_cls :: pyclass where
  "type_cls = PyClass ''type'' [object_cls]"

definition BaseException_cls :: pyclass where
  "BaseException_cls = PyClass ''BaseException'' [object_cls]"

definition Exception_cls :: pyclass where
  "Exception_cls = PyClass ''Exception'' [BaseException_cls]"

definition KeyboardInterrupt_cls :: pyclass where
  "KeyboardInterrupt_cls = PyClass ''KeyboardInterrupt'' [BaseException_cls]"

definition ValueError_cls :: pyclass where
  "ValueError_cls = PyClass ''ValueError'' [Exception_cls]"

definition TypeError_cls :: pyclass where
  "TypeError_cls = PyClass ''TypeError'' [Exception_cls]"

definition AttributeError_cls :: pyclass where
  "AttributeError_cls = PyClass ''AttributeError'' [Exception_cls]"

definition LookupError_cls :: pyclass where
  "LookupError_cls = PyClass ''LookupError'' [Exception_cls]"

definition KeyError_cls :: pyclass where
  "KeyError_cls = PyClass ''KeyError'' [LookupError_cls]"

text \<open>The framework's exception class, and the one this package derives from it.\<close>

definition SanicException_cls :: pyclass where
  "SanicException_cls = PyClass ''SanicException'' [Exception_cls]"

definition RoutingErrorException_cls :: pyclass where
  "RoutingErrorException_cls = PyClass ''RoutingErrorException'' [SanicException_cls]"

text \<open>
  An exception object: its class, what \<open>str\<close> gives for it, and its \<open>status_code\<close>
  attribute when it has one. \<open>get_exception_handler\<close> accepts an exception object or an
  exception class.
\<close>

record exc_obj =
  exc_class :: pyclass
  exc_str :: string
  exc_status_code :: "pyval option"

datatype exception = Instance exc_obj | Class pyclass

datatype 'a outcome = Returned 'a | Raised exc_obj

definition class_of :: "exception \<Rightarrow> pyclass" where
  "class_of exception = (case exception of Instance e \<Rightarrow> exc_class e | Class c \<Rightarrow> type_cls)"

definition isinstance :: "exception \<Rightarrow> pyclass \<Rightarrow> bool" where
  "isinstance exception key = issubclass (class_of exception) key"

definition new_exc :: "pyclass \<Rightarrow> string \<Rightarrow> exc_obj" where
  "new_exc c msg = \<lparr>exc_class = c, exc_str = msg, exc_status_code = None\<rparr>"

section \<open>exceptions.py: the registry of exception handlers\<close>

text \<open>
  \<open>_exception_handlers\<close> is one module-level dictionary from exception class to handler.
  \<open>register_exception_handler(*exceptions)(func)\<close> stores \<open>func\<close> under each class.
\<close>

fun register_exception_handler ::
  "pyclass list \<Rightarrow> 'h \<Rightarrow> (pyclass \<times> 'h) list \<Rightarrow> (pyclass \<times> 'h) list" where
  "register_exception_handler [] func exception_handlers = exception_handlers"
| "register_exception_handler (exception # exceptions) func exception_handlers =
     register_exception_handler exceptions func (dict_set exception func exception_handlers)"

text \<open>
  The loop of \<open>get_exception_handler\<close> over \<open>_exception_handlers.items()\<close>, with the local
  variable \<open>default\<close> (here \<open>default_handler\<close>).
\<close>

fun handlers_loop ::
  "exception \<Rightarrow> pyclass \<Rightarrow> (pyclass \<times> 'h) list \<Rightarrow> 'h option \<Rightarrow> 'h option" where
  "handlers_loop exception exc_cls [] default_handler = default_handler"
| "handlers_loop exception exc_cls ((key, handler) # items) default_handler =
     (if isinstance exception key then Some handler
      else handlers_loop exception exc_cls items
             (if default_handler = None \<and> issubclass exc_cls key then Some handler
              else default_handler))"

definition get_exception_handler :: "(pyclass \<times> 'h) list \<Rightarrow> exception \<Rightarrow> 'h option" where
  "get_exception_handler exception_handlers exception =
     (let exc_cls = (case exception of Instance e \<Rightarrow> exc_class e | Class c \<Rightarrow> c)
      in if dict_contains exception_handlers exc_cls
         then dict_get exception_handlers exc_cls
         else handlers_loop exception exc_cls exception_handlers None)"

text \<open>The handler registered for \<open>SanicException\<close> when the module is loaded.\<close>

definition sanic_exceptions :: "exc_obj \<Rightarrow> pyval outcome" where
  "sanic_exceptions exc =
     (case exc_status_code exc of
        None \<Rightarrow> Raised (new_exc AttributeError_cls ''status_code'')
      | Some status_code \<Rightarrow> Returned (PTuple [status_code, PStr (exc_str exc), PNone]))"

definition initial_exception_handlers :: "(pyclass \<times> (exc_obj \<Rightarrow> pyval outcome)) list" where
  "initial_exception_handlers =
     register_exception_handler [SanicException_cls] sanic_exceptions []"

text \<open>\<open>RoutingErrorException(message)\<close>: a \<open>SanicException\<close> with status code 500.\<close>

definition RoutingErrorException :: "string \<Rightarrow> exc_obj" where
  "RoutingErrorException message =
     \<lparr>exc_class = RoutingErrorException_cls, exc_str = message,
      exc_status_code = Some (PInt 500)\<rparr>"

text \<open>Two application handlers, as an application registers them for its own classes.\<close>

definition resolverBase :: "exc_obj \<Rightarrow> pyval outcome" where
  "resolverBase exc = Returned (PTuple [PInt 400, PInt 1, PStr (exc_str exc), PNone])"

definition resolverSpecific :: "exc_obj \<Rightarrow> pyval outcome" where
  "resolverSpecific exc = Returned (PTuple [PInt 404, PInt 2, PStr (exc_str exc), PNone])"

section \<open>endpoint.py: strings, requests and responses\<close>

text \<open>\<open>str.lower\<close> on the ASCII letters, and the substring test \<open>sub in s\<close>.\<close>

definition lower_char :: "char \<Rightarrow> char" where
  "lower_char c =
     (case map_of (zip ''ABCDEFGHIJKLMNOPQRSTUVWXYZ'' ''abcdefghijklmnopqrstuvwxyz'') c of
        Some l \<Rightarrow> l
      | None \<Rightarrow> c)"

definition lower :: "string \<Rightarrow> string" where
  "lower s = map lower_char s"

fun starts_with :: "string \<Rightarrow> string \<Rightarrow> bool" where
  "starts_with [] s = True"
| "starts_with (c # cs) [] = False"
| "starts_with (c # cs) (d # ds) = (c = d \<and> starts_with cs ds)"

fun str_in :: "string \<Rightarrow> string \<Rightarrow> bool" where
  "str_in sub [] = (sub = [])"
| "str_in sub (c # cs) = (starts_with sub (c # cs) \<or> str_in sub cs)"

text \<open>
  The fields of the framework's request that the endpoint reads. \<open>match_info\<close>, \<open>json\<close>,
  \<open>args\<close>, \<open>files\<close> and \<open>form\<close> may be \<open>None\<close>.
\<close>

record request =
  request_method :: string
  request_content_type :: string
  request_match_info :: "pydict option"
  request_json :: "pydict option"
  request_args :: "pydict option"
  request_files :: "pydict option"
  request_form :: "pydict option"
  request_headers :: pydict

text \<open>
  The framework's response constructors, with their arguments as the endpoint passes them:
  \<open>JsonResponse(body, status, headers)\<close>, \<open>RawResponse(body, status, headers,
  content_type)\<close>, \<open>TextResponse(body, status, headers, content_type)\<close>,
  \<open>FileResponse(path, headers)\<close>.
\<close>

datatype response =
    JsonResponse pyval pyval pydict
  | RawResponse string pyval pydict string
  | TextResponse string pyval pydict string
  | FileResponse string pydict

text \<open>
  What the endpoint takes from outside this package: the request id of the logging
  context (\<open>set_request_id\<close>, \<open>get_request_id\<close>) over a state \<open>'w\<close>, and the standard
  library's \<open>HTTPStatus(code).phrase\<close>, which raises for a value that is no status.
\<close>

record 'w externals =
  set_request_id :: "'w \<Rightarrow> 'w"
  get_request_id :: "'w \<Rightarrow> pyval"
  HTTPStatus_phrase :: "pyval \<Rightarrow> pyval outcome"

definition make_response_json ::
  "'w externals \<Rightarrow> 'w \<Rightarrow> pyval \<Rightarrow> pyval \<Rightarrow> pyval \<Rightarrow> pyval \<Rightarrow> pydict option
     \<Rightarrow> response outcome" where
  "make_response_json ext w code message data error_code headers =
     (let headers1 = (case headers of None \<Rightarrow> [] | Some h \<Rightarrow> h);
          headers2 = dict_set ''x-cross-request-id'' (get_request_id ext w) headers1
      in if data \<noteq> PNone then Returned (JsonResponse data code headers2)
         else
           (case (if message = PNone then HTTPStatus_phrase ext code else Returned message) of
              Raised e \<Rightarrow> Raised e
            | Returned message1 \<Rightarrow>
                (let error_code1 = (if error_code = PNone then code else error_code);
                     data1 = PDict [(''code'', error_code1), (''message'', message1)]
                 in Returned (JsonResponse data1 code headers2))))"

section \<open>endpoint.py: aggregating the body\<close>

definition then_outcome :: "'a outcome \<Rightarrow> ('a \<Rightarrow> 'b outcome) \<Rightarrow> 'b outcome" where
  "then_outcome r f = (case r of Raised e \<Rightarrow> Raised e | Returned x \<Rightarrow> f x)"

text \<open>
  \<open>params_from_dictparams\<close>: the loop over the keys of \<open>params\<close>; \<open>params[key]\<close> raises
  \<open>KeyError\<close> for a key that is absent.
\<close>

fun params_loop :: "pydict \<Rightarrow> string list \<Rightarrow> pydict \<Rightarrow> pydict outcome" where
  "params_loop params [] args = Returned args"
| "params_loop params (key # keys) args =
     (case dict_get params key of
        None \<Rightarrow> Raised (new_exc KeyError_cls key)
      | Some val \<Rightarrow>
          params_loop params keys
            (dict_set key (case val of PList [v] \<Rightarrow> v | _ \<Rightarrow> val) args))"

definition params_from_dictparams :: "pydict \<Rightarrow> pydict outcome" where
  "params_from_dictparams params = params_loop params (dict_keys params) []"

definition import_body_match_info :: "request \<Rightarrow> pydict" where
  "import_body_match_info request =
     (case request_match_info request of Some m \<Rightarrow> m | None \<Rightarrow> [])"

definition import_body_json :: "request \<Rightarrow> pydict" where
  "import_body_json request =
     (if str_in ''application/json'' (request_content_type request)
      then (case request_json request of Some j \<Rightarrow> j | None \<Rightarrow> [])
      else [])"

definition import_body_args :: "request \<Rightarrow> pydict outcome" where
  "import_body_args request =
     (if request_method request \<noteq> ''POST''
      then (case request_args request of
              None \<Rightarrow> Returned []
            | Some a \<Rightarrow> if length a > 0 then params_from_dictparams a else Returned [])
      else Returned [])"

text \<open>
  \<open>import_body_files\<close>: reading \<open>type\<close>, \<open>body\<close> and \<open>name\<close> of a list item raises
  \<open>AttributeError\<close> when the item is no \<open>File\<close>.
\<close>

fun file_attrs :: "pyval \<Rightarrow> pyval outcome" where
  "file_attrs (PFile t b n) =
     Returned (PDict [(''type'', PStr t), (''body'', PBytes b), (''name'', PStr n)])"
| "file_attrs v = Raised (new_exc AttributeError_cls ''type'')"

fun files_comprehension :: "pyval list \<Rightarrow> pyval list outcome" where
  "files_comprehension [] = Returned []"
| "files_comprehension (file # rest) =
     (case file_attrs file of
        Raised e \<Rightarrow> Raised e
      | Returned d \<Rightarrow>
          (case files_comprehension rest of
             Raised e \<Rightarrow> Raised e
           | Returned ds \<Rightarrow> Returned (d # ds)))"

fun files_loop :: "pydict \<Rightarrow> string list \<Rightarrow> pydict \<Rightarrow> pydict outcome" where
  "files_loop req_files [] files = Returned files"
| "files_loop req_files (key # keys) files =
     (case dict_get req_files key of
        None \<Rightarrow> Raised (new_exc KeyError_cls key)
      | Some val \<Rightarrow>
          (case val of
             PList items \<Rightarrow>
               (case files_comprehension items of
                  Raised e \<Rightarrow> Raised e
                | Returned ds \<Rightarrow> files_loop req_files keys (dict_set key (PList ds) files))
           | _ \<Rightarrow> files_loop req_files keys (dict_set key (PDict req_files) files)))"

definition import_body_files :: "request \<Rightarrow> pydict outcome" where
  "import_body_files request =
     (case request_files request of
        None \<Rightarrow> Returned []
      | Some fs \<Rightarrow> if length fs > 0 then files_loop fs (dict_keys fs) [] else Returned [])"

definition import_body_form :: "request \<Rightarrow> pydict outcome" where
  "import_body_form request =
     (case request_form request of
        None \<Rightarrow> Returned []
      | Some f \<Rightarrow>
          if length f > 0
          then (if str_in ''multipart/form-data'' (request_content_type request)
                then params_from_dictparams f else Returned f)
          else Returned [])"

fun headers_loop :: "pydict \<Rightarrow> string list \<Rightarrow> pydict \<Rightarrow> pydict outcome" where
  "headers_loop req_headers [] headers = Returned headers"
| "headers_loop req_headers (header # rest) headers =
     (if lower (take 2 header) = ''x-''
      then (case dict_get req_headers header of
              None \<Rightarrow> Raised (new_exc KeyError_cls header)
            | Some v \<Rightarrow> headers_loop req_headers rest (dict_set header v headers))
      else headers_loop req_headers rest headers)"

definition import_body_headers :: "request \<Rightarrow> pydict outcome" where
  "import_body_headers request =
     headers_loop (request_headers request) (dict_keys (request_headers request)) []"

text \<open>
  The first part of \<open>handle\<close>: \<open>body = {}\<close> and the six \<open>body.update(...)\<close> calls, in their
  order, before \<open>body['auth'] = auth\<close>.
\<close>

definition handle_body :: "request \<Rightarrow> pydict outcome" where
  "handle_body request =
     (let body1 = dict_update [] (import_body_match_info request);
          body2 = dict_update body1 (import_body_json request)
      in then_outcome (import_body_args request) (\<lambda>a.
         let body3 = dict_update body2 a in
         then_outcome (import_body_files request) (\<lambda>fs.
         let body4 = dict_update body3 fs in
         then_outcome (import_body_form request) (\<lambda>fo.
         let body5 = dict_update body4 fo in
         then_outcome (import_body_headers request) (\<lambda>hs.
         Returned (dict_update body5 hs))))))"

section \<open>endpoint.py: the dispatch\<close>

text \<open>
  Hooks and verb handlers are coroutines of the application, awaited one after the other.
  They act on the application's state \<open>'w\<close>, may change the body dictionary they are given,
  and return or raise. \<open>'x\<close> stands for the extra arguments \<open>*args, **kwargs\<close> that every
  call passes on unchanged.
\<close>

type_synonym ('w, 'x) before_hook =
  "request \<Rightarrow> pydict \<Rightarrow> 'x \<Rightarrow> 'w \<Rightarrow> unit outcome \<times> pydict \<times> 'w"

type_synonym ('w, 'x) verb_handler =
  "request \<Rightarrow> pydict \<Rightarrow> 'x \<Rightarrow> 'w \<Rightarrow> response outcome \<times> pydict \<times> 'w"

type_synonym ('w, 'x) after_hook =
  "request \<Rightarrow> 'x \<Rightarrow> 'w \<Rightarrow> unit outcome \<times> 'w"

text \<open>
  An endpoint object: its attributes named \<open>method_<verb>\<close> (\<open>hasattr\<close>, \<open>getattr\<close>) and
  what \<open>_get_before_methods()\<close> and \<open>_get_after_methods()\<close> return.
\<close>

record ('w, 'x) endpoint =
  attrs :: "string \<Rightarrow> ('w, 'x) verb_handler option"
  get_before_methods :: "('w, 'x) before_hook list"
  get_after_methods :: "('w, 'x) after_hook list"

text \<open>
  The calls the dispatch makes are recorded, in order, with their arguments: the hook's
  position in its list, the request, the body (when passed) and the extra arguments.
\<close>

datatype 'x event =
    CallBefore nat request pydict 'x
  | CallVerb string request pydict 'x
  | CallAfter nat request 'x

fun is_hook_call :: "'x event \<Rightarrow> bool" where
  "is_hook_call (CallVerb name request body extras) = False"
| "is_hook_call ev = True"


text \<open>\<open>_before_method\<close>: the loop over the before-hooks, from position \<open>i\<close>.\<close>

fun before_loop ::
  "nat \<Rightarrow> ('w, 'x) before_hook list \<Rightarrow> request \<Rightarrow> pydict \<Rightarrow> 'x \<Rightarrow> 'x event list \<times> 'w
     \<Rightarrow> unit outcome \<times> pydict \<times> 'x event list \<times> 'w" where
  "before_loop i [] request body extras st = (Returned (), body, st)"
| "before_loop i (func # funcs) request body extras st =
     (case func request body extras (snd st) of
        (Raised e, body1, w1) \<Rightarrow>
          (Raised e, body1, (fst st @ [CallBefore i request body extras], w1))
      | (Returned u, body1, w1) \<Rightarrow>
          before_loop (Suc i) funcs request body1 extras
            (fst st @ [CallBefore i request body extras], w1))"

definition before_method ::
  "('w, 'x) endpoint \<Rightarrow> request \<Rightarrow> pydict \<Rightarrow> 'x \<Rightarrow> 'x event list \<times> 'w
     \<Rightarrow> unit outcome \<times> pydict \<times> 'x event list \<times> 'w" where
  "before_method self request body extras st =
     before_loop 0 (get_before_methods self) request body extras st"

text \<open>\<open>_after_method\<close>: the loop over the after-hooks, from position \<open>i\<close>.\<close>

fun after_loop ::
  "nat \<Rightarrow> ('w, 'x) after_hook list \<Rightarrow> request \<Rightarrow> 'x \<Rightarrow> 'x event list \<times> 'w
     \<Rightarrow> unit outcome \<times> 'x event list \<times> 'w" where
  "after_loop i [] request extras st = (Returned (), st)"
| "after_loop i (func # funcs) request extras st =
     (case func request extras (snd st) of
        (Raised e, w1) \<Rightarrow> (Raised e, (fst st @ [CallAfter i request extras], w1))
      | (Returned u, w1) \<Rightarrow>
          after_loop (Suc i) funcs request extras
            (fst st @ [CallAfter i request extras], w1))"

definition after_method ::
  "('w, 'x) endpoint \<Rightarrow> request \<Rightarrow> 'x \<Rightarrow> 'x event list \<times> 'w
     \<Rightarrow> unit outcome \<times> 'x event list \<times> 'w" where
  "after_method self request extras st =
     after_loop 0 (get_after_methods self) request extras st"

text \<open>
  The assignment \<open>code, error_code, message, data = handler(exception)\<close>: the value is
  iterated and must give exactly four items.
\<close>

fun iterate :: "pyval \<Rightarrow> pyval list outcome" where
  "iterate (PList xs) = Returned xs"
| "iterate (PTuple xs) = Returned xs"
| "iterate (PStr s) = Returned (map (\<lambda>c. PStr [c]) s)"
| "iterate (PBytes s) = Returned (map (\<lambda>c. PInt (of_char c)) s)"
| "iterate (PDict d) = Returned (map (\<lambda>kv. PStr (fst kv)) d)"
| "iterate (PFile t b n) = Returned [PStr t, PBytes b, PStr n]"
| "iterate v = Raised (new_exc TypeError_cls ''cannot unpack non-iterable object'')"

fun unpack4 :: "pyval list \<Rightarrow> (pyval \<times> pyval \<times> pyval \<times> pyval) outcome" where
  "unpack4 [] =
     Raised (new_exc ValueError_cls ''not enough values to unpack (expected 4, got 0)'')"
| "unpack4 [a] =
     Raised (new_exc ValueError_cls ''not enough values to unpack (expected 4, got 1)'')"
| "unpack4 [a, b] =
     Raised (new_exc ValueError_cls ''not enough values to unpack (expected 4, got 2)'')"
| "unpack4 [a, b, c] =
     Raised (new_exc ValueError_cls ''not enough values to unpack (expected 4, got 3)'')"
| "unpack4 [a, b, c, d] = Returned (a, b, c, d)"
| "unpack4 (a # b # c # d # e # rest) =
     Raised (new_exc ValueError_cls ''too many values to unpack (expected 4)'')"

definition handle_method_exceptions ::
  "'w externals \<Rightarrow> (pyclass \<times> (exc_obj \<Rightarrow> pyval outcome)) list \<Rightarrow> 'w \<Rightarrow> exc_obj
     \<Rightarrow> response outcome" where
  "handle_method_exceptions ext exception_handlers w exception =
     (let handler = get_exception_handler exception_handlers (Instance exception);
          code = PInt 500;
          data = PNone;
          error_code = PNone;
          message = PStr (exc_str exception)
      in case handler of
           None \<Rightarrow> make_response_json ext w code message data error_code None
         | Some h \<Rightarrow>
             then_outcome (h exception) (\<lambda>result.
             then_outcome (iterate result) (\<lambda>items.
             then_outcome (unpack4 items) (\<lambda>(code1, error_code1, message1, data1).
             make_response_json ext w code1 message1 data1 error_code1 None))))"

text \<open>
  \<open>_method\<close>. \<open>method_except\<close> is its clause \<open>except Exception as e\<close>, which lets an
  exception that is no \<open>Exception\<close> pass; \<open>method_try\<close> is the \<open>try\<close> block with that
  clause; \<open>method_impl\<close> is the whole function, whose \<open>finally\<close> block runs
  \<open>_after_method\<close> and, when that raises, replaces the pending result by its exception.
\<close>

definition method_except ::
  "'w externals \<Rightarrow> (pyclass \<times> (exc_obj \<Rightarrow> pyval outcome)) list \<Rightarrow> exc_obj
     \<Rightarrow> 'x event list \<times> 'w \<Rightarrow> response outcome \<times> 'x event list \<times> 'w" where
  "method_except ext exception_handlers e st =
     (if isinstance (Instance e) Exception_cls
      then (handle_method_exceptions ext exception_handlers (snd st) e, st)
      else (Raised e, st))"

definition method_try ::
  "'w externals \<Rightarrow> (pyclass \<times> (exc_obj \<Rightarrow> pyval outcome)) list \<Rightarrow> ('w, 'x) endpoint
     \<Rightarrow> string \<Rightarrow> ('w, 'x) verb_handler \<Rightarrow> request \<Rightarrow> pydict \<Rightarrow> 'x \<Rightarrow> 'x event list \<times> 'w
     \<Rightarrow> response outcome \<times> 'x event list \<times> 'w" where
  "method_try ext exception_handlers self func_name func request body extras st =
     (case before_method self request body extras st of
        (Raised e, body1, st1) \<Rightarrow> method_except ext exception_handlers e st1
      | (Returned u, body1, st1) \<Rightarrow>
          (case func request body1 extras (snd st1) of
             (Raised e, body2, w2) \<Rightarrow>
               method_except ext exception_handlers e
                 (fst st1 @ [CallVerb func_name request body1 extras], w2)
           | (Returned resp, body2, w2) \<Rightarrow>
               (Returned resp, (fst st1 @ [CallVerb func_name request body1 extras], w2))))"

definition method_impl ::
  "'w externals \<Rightarrow> (pyclass \<times> (exc_obj \<Rightarrow> pyval outcome)) list \<Rightarrow> ('w, 'x) endpoint
     \<Rightarrow> request \<Rightarrow> pydict \<Rightarrow> 'x \<Rightarrow> 'x event list \<times> 'w
     \<Rightarrow> response outcome \<times> 'x event list \<times> 'w" where
  "method_impl ext exception_handlers self request body extras st =
     (let st0 = (fst st, set_request_id ext (snd st));
          method = lower (request_method request);
          func_name = ''method_'' @ method
      in case attrs self func_name of
           Some func \<Rightarrow>
             (case method_try ext exception_handlers self func_name func request body extras st0 of
                (result, st1) \<Rightarrow>
                  (case after_method self request extras st1 of
                     (Raised e, st2) \<Rightarrow> (Raised e, st2)
                   | (Returned u, st2) \<Rightarrow> (result, st2)))
         | None \<Rightarrow>
             (make_response_json ext (snd st0) (PInt 405) (PStr ''Method Not Allowed'')
                PNone PNone None, st0))"

definition handle ::
  "'w externals \<Rightarrow> (pyclass \<times> (exc_obj \<Rightarrow> pyval outcome)) list \<Rightarrow> ('w, 'x) endpoint
     \<Rightarrow> request \<Rightarrow> pyval \<Rightarrow> 'x \<Rightarrow> 'x event list \<times> 'w
     \<Rightarrow> response outcome \<times> 'x event list \<times> 'w" where
  "handle ext exception_handlers self request auth extras st =
     (case handle_body request of
        Raised e \<Rightarrow> (Raised e, st)
      | Returned body \<Rightarrow>
          method_impl ext exception_handlers self request (dict_set ''auth'' auth body)
            extras st)"

text \<open>
  The nine verb methods of \<open>SanicEndpoint\<close> have one body; the class has no hooks.
\<close>

definition method_not_impl :: "'w externals \<Rightarrow> ('w, 'x) verb_handler" where
  "method_not_impl ext request body extras w =
     (make_response_json ext w (PInt 500) (PStr (request_method request @ '' Not Impl''))
        PNone PNone None, body, w)"

definition SanicEndpoint :: "'w externals \<Rightarrow> ('w, 'x) endpoint" where
  "SanicEndpoint ext =
     \<lparr>attrs = (\<lambda>name.
        if name \<in> set [''method_get'', ''method_head'', ''method_post'', ''method_put'',
                       ''method_delete'', ''method_connect'', ''method_options'',
                       ''method_trace'', ''method_patch'']
        then Some (method_not_impl ext) else None),
      get_before_methods = [],
      get_after_methods = []\<rparr>"

section \<open>The specification's wording, and example objects\<close>

text \<open>
  Scalar collapsing as the specification words it: a list of length exactly 1 becomes its
  single element, every other value is kept.
\<close>

fun spec_collapse :: "pyval \<Rightarrow> pyval" where
  "spec_collapse (PList xs) = (if length xs = 1 then hd xs else PList xs)"
| "spec_collapse v = v"

text \<open>The files multimap holds \<open>File\<close> items in the lists it maps to.\<close>

fun is_file :: "pyval \<Rightarrow> bool" where
  "is_file (PFile t b n) = True"
| "is_file v = False"

fun file_items :: "pyval \<Rightarrow> bool" where
  "file_items (PList items) = list_all is_file items"
| "file_items v = True"

text \<open>
  An application for the examples: its state is a request id and a counter; its hooks
  count, change the body, or raise; its endpoint has the verbs \<open>get\<close>, \<open>post\<close>, \<open>put\<close> and \<open>patch\<close>.
\<close>

definition example_externals :: "(nat \<times> nat) externals" where
  "example_externals =
     \<lparr>set_request_id = (\<lambda>w. (Suc (fst w), snd w)),
      get_request_id = (\<lambda>w. PInt (int (fst w))),
      HTTPStatus_phrase = (\<lambda>code.
        if code = PInt 405 then Returned (PStr ''Method Not Allowed'')
        else if code = PInt 500 then Returned (PStr ''Internal Server Error'')
        else Raised (new_exc ValueError_cls ''not a valid HTTPStatus''))\<rparr>"

definition example_before :: "(nat \<times> nat, pyval list) before_hook" where
  "example_before request body extras w =
     (Returned (), dict_set ''checked'' (PBool True) body, (fst w, Suc (snd w)))"

definition example_before_raises :: "(nat \<times> nat, pyval list) before_hook" where
  "example_before_raises request body extras w =
     (Raised (new_exc ValueError_cls ''bad request''), body, w)"

definition example_after :: "(nat \<times> nat, pyval list) after_hook" where
  "example_after request extras w = (Returned (), (fst w, Suc (snd w)))"

definition example_after_raises :: "(nat \<times> nat, pyval list) after_hook" where
  "example_after_raises request extras w = (Raised (new_exc KeyError_cls ''cleanup''), w)"

definition example_get :: "(nat \<times> nat, pyval list) verb_handler" where
  "example_get request body extras w =
     (make_response_json example_externals w (PInt 200) PNone (PDict body) PNone None, body, w)"

definition example_post :: "(nat \<times> nat, pyval list) verb_handler" where
  "example_post request body extras w = (Raised (new_exc ValueError_cls ''boom''), body, w)"

definition example_put :: "(nat \<times> nat, pyval list) verb_handler" where
  "example_put request body extras w = (Raised (RoutingErrorException ''no route''), body, w)"

definition example_patch :: "(nat \<times> nat, pyval list) verb_handler" where
  "example_patch request body extras w =
     (Raised (new_exc KeyboardInterrupt_cls ''interrupted''), body, w)"

definition example_attrs :: "string \<Rightarrow> (nat \<times> nat, pyval list) verb_handler option" where
  "example_attrs name =
     (if name = ''method_get'' then Some example_get
      else if name = ''method_post'' then Some example_post
      else if name = ''method_put'' then Some example_put
      else if name = ''method_patch'' then Some example_patch
      else None)"

definition example_endpoint :: "(nat \<times> nat, pyval list) endpoint" where
  "example_endpoint =
     \<lparr>attrs = example_attrs,
      get_before_methods = [example_before],
      get_after_methods = [example_after, example_after]\<rparr>"

definition example_endpoint_before_raises :: "(nat \<times> nat, pyval list) endpoint" where
  "example_endpoint_before_raises =
     \<lparr>attrs = example_attrs,
      get_before_methods = [example_before, example_before_raises, example_before],
      get_after_methods = [example_after, example_after]\<rparr>"

definition example_endpoint_after_raises :: "(nat \<times> nat, pyval list) endpoint" where
  "example_endpoint_after_raises =
     \<lparr>attrs = example_attrs,
      get_before_methods = [example_before],
      get_after_methods = [example_after, example_after_raises, example_after]\<rparr>"

definition example_request :: "string \<Rightarrow> request" where
  "example_request verb =
     \<lparr>request_method = verb,
      request_content_type = ''application/json; charset=utf-8'',
      request_match_info = Some [(''id'', PStr ''1'')],
      request_json = Some [(''id'', PStr ''2'')],
      request_args = Some [(''id'', PList [PStr ''3'']), (''tag'', PList [PStr ''x'', PStr ''y''])],
      request_files = None,
      request_form = None,
      request_headers = [(''Content-Type'', PStr ''application/json; charset=utf-8''),
                         (''Host'', PStr ''localhost'')]\<rparr>"

definition example_files_request :: "pydict \<Rightarrow> request" where
  "example_files_request fs =
     \<lparr>request_method = ''POST'',
      request_content_type = ''multipart/form-data; boundary=x'',
      request_match_info = None,
      request_json = None,
      request_args = None,
      request_files = Some fs,
      request_form = None,
      request_headers = []\<rparr>"

section \<open>Dictionaries\<close>

lemma dict_get_dict_set:
  "dict_get (dict_set k v d) k' = (if k' = k then Some v else dict_get d k')"
  by (induction d) auto

lemma dict_keys_dict_set:
  "dict_keys (dict_set k v d) =
     (if k \<in> set (dict_keys d) then dict_keys d else dict_keys d @ [k])"
  by (induction d) (force simp: dict_keys_def)+

lemma dict_get_None_iff: "dict_get d k = None \<longleftrightarrow> k \<notin> set (dict_keys d)"
  by (induction d) (force simp: dict_keys_def split: if_splits)+

lemma dict_set_append: "k \<notin> set (dict_keys d) \<Longrightarrow> dict_set k v d = d @ [(k, v)]"
  by (induction d) (auto simp: dict_keys_def)

lemma dict_get_distinct:
  "distinct (dict_keys d) \<Longrightarrow> (k, v) \<in> set d \<Longrightarrow> dict_get d k = Some v"
  by (induction d) (force simp: dict_keys_def)+

lemma filter_key_absent:
  "k \<notin> set (dict_keys d) \<Longrightarrow> filter (\<lambda>kv. fst kv = k) d = []"
  by (induction d) (auto simp: dict_keys_def)

lemma filter_key_dict_set:
  "distinct (dict_keys d) \<Longrightarrow> filter (\<lambda>kv. fst kv = k) (dict_set k v d) = [(k, v)]"
proof (induction d)
  case Nil
  then show ?case by simp
next
  case (Cons p d)
  show ?case
  proof (cases "fst p = k")
    case True
    with Cons.prems have "k \<notin> set (dict_keys d)" by (auto simp: dict_keys_def)
    with True show ?thesis by (cases p) (simp add: filter_key_absent)
  next
    case False
    with Cons show ?thesis by (cases p) (simp add: dict_keys_def)
  qed
qed

lemma find_dict_set_new:
  "P k \<Longrightarrow> \<forall>k'\<in>set (dict_keys d). \<not> P k' \<Longrightarrow>
     find (\<lambda>(key, h). P key) (dict_set k v d) = Some (k, v)"
  by (induction d) (auto simp: dict_keys_def)

lemma find_dict_set_other:
  "find (\<lambda>(key, h). P key) d = Some (k', v') \<Longrightarrow> k' \<noteq> k \<Longrightarrow>
     find (\<lambda>(key, h). P key) (dict_set k v d) = Some (k', v')"
  by (induction d) (auto split: if_splits)

section \<open>The registry\<close>

lemma issubclass_refl: "issubclass c c"
  by (cases c) simp

lemma dict_get_register:
  "dict_get (register_exception_handler exceptions func reg) T =
     (if T \<in> set exceptions then Some func else dict_get reg T)"
  by (induction exceptions arbitrary: reg) (auto simp: dict_get_dict_set)

lemma dict_keys_register_mono:
  "set (dict_keys reg) \<subseteq> set (dict_keys (register_exception_handler exceptions func reg))"
proof (induction exceptions arbitrary: reg)
  case Nil
  then show ?case by simp
next
  case (Cons a exceptions)
  have "set (dict_keys reg) \<subseteq> set (dict_keys (dict_set a func reg))"
    by (auto simp: dict_keys_dict_set)
  also have "\<dots> \<subseteq>
      set (dict_keys (register_exception_handler exceptions func (dict_set a func reg)))"
    by (rule Cons.IH)
  finally show ?case by simp
qed

text \<open>
  For an exception object, \<open>isinstance(exception, key)\<close> and \<open>issubclass(exc_cls, key)\<close>
  agree, so \<open>default\<close> stays \<open>None\<close> and the loop returns the handler of the first entry
  that the object is an instance of.
\<close>

lemma handlers_loop_instance:
  "handlers_loop (Instance e) (exc_class e) items None =
     map_option snd (find (\<lambda>(key, handler). isinstance (Instance e) key) items)"
  by (induction items) (auto simp: isinstance_def class_of_def)

lemmas class_defs =
  object_cls_def type_cls_def BaseException_cls_def Exception_cls_def
  KeyboardInterrupt_cls_def ValueError_cls_def TypeError_cls_def AttributeError_cls_def
  LookupError_cls_def KeyError_cls_def SanicException_cls_def RoutingErrorException_cls_def

section \<open>Claims about the registry\<close>

text \<open>
  Claim C1, as the code has it. After a handler is registered for \<open>Base\<close> and then one for
  \<open>Specific\<close>, an exception object whose class is \<open>Specific\<close> resolves to the handler of
  \<open>Specific\<close>: its class is a key of the dictionary, and the exact entry is returned before
  any ancestor is looked at. The first registered ancestor decides only for an object whose
  own class is not registered: an object of a further subclass of \<open>Base\<close>, none of whose
  ancestors was registered before, resolves to the handler of \<open>Base\<close>, also when it is an
  instance of \<open>Specific\<close> as well.
\<close>

theorem exact_type_wins:
  "(exc_class e = Specific \<longrightarrow>
      get_exception_handler
        (register_exception_handler [Specific] resolverS
          (register_exception_handler [Base] resolverB reg)) (Instance e) = Some resolverS)
   \<and> (exc_class e \<noteq> Specific \<and> exc_class e \<noteq> Base \<and> Base \<noteq> Specific
        \<and> issubclass (exc_class e) Base
        \<and> (\<forall>k\<in>set (dict_keys reg). \<not> issubclass (exc_class e) k) \<longrightarrow>
      get_exception_handler
        (register_exception_handler [Specific] resolverS
          (register_exception_handler [Base] resolverB reg)) (Instance e) = Some resolverB)"
proof (intro conjI impI)
  let ?reg2 = "register_exception_handler [Specific] resolverS
          (register_exception_handler [Base] resolverB reg)"
  {
    assume "exc_class e = Specific"
    then show "get_exception_handler ?reg2 (Instance e) = Some resolverS"
      by (simp add: get_exception_handler_def dict_contains_def dict_get_dict_set)
  }
  {
    assume a: "exc_class e \<noteq> Specific \<and> exc_class e \<noteq> Base \<and> Base \<noteq> Specific
        \<and> issubclass (exc_class e) Base
        \<and> (\<forall>k\<in>set (dict_keys reg). \<not> issubclass (exc_class e) k)"
    let ?P = "\<lambda>key. isinstance (Instance e) key"
    from a have none: "\<forall>k\<in>set (dict_keys reg). \<not> ?P k"
      by (simp add: isinstance_def class_of_def)
    from a have pb: "?P Base" by (simp add: isinstance_def class_of_def)
    have f1: "find (\<lambda>(key, h). ?P key) (dict_set Base resolverB reg) = Some (Base, resolverB)"
      using find_dict_set_new [of ?P, OF pb none] .
    have f2: "find (\<lambda>(key, h). ?P key) ?reg2 = Some (Base, resolverB)"
      using find_dict_set_other [of ?P, OF f1] a by simp
    from a have "exc_class e \<notin> set (dict_keys reg)"
      using issubclass_refl by blast
    then have "dict_get reg (exc_class e) = None" by (simp add: dict_get_None_iff)
    with a have absent: "dict_get ?reg2 (exc_class e) = None"
      by (simp add: dict_get_dict_set)
    show "get_exception_handler ?reg2 (Instance e) = Some resolverB"
      using absent f2
      by (simp add: get_exception_handler_def dict_contains_def handlers_loop_instance)
  }
qed

theorem exact_type_wins_witness:
  "get_exception_handler
     (register_exception_handler [KeyError_cls] resolverSpecific
       (register_exception_handler [LookupError_cls] resolverBase initial_exception_handlers))
     (Instance (new_exc KeyError_cls ''id'')) = Some resolverSpecific
   \<and> get_exception_handler
     (register_exception_handler [LookupError_cls] resolverSpecific
       (register_exception_handler [Exception_cls] resolverBase []))
     (Instance (new_exc KeyError_cls ''id'')) = Some resolverBase"
proof
  show "get_exception_handler
     (register_exception_handler [KeyError_cls] resolverSpecific
       (register_exception_handler [LookupError_cls] resolverBase initial_exception_handlers))
     (Instance (new_exc KeyError_cls ''id'')) = Some resolverSpecific"
    using exact_type_wins [of "new_exc KeyError_cls ''id''" KeyError_cls resolverSpecific
        LookupError_cls resolverBase initial_exception_handlers]
    by (simp add: new_exc_def)
  show "get_exception_handler
     (register_exception_handler [LookupError_cls] resolverSpecific
       (register_exception_handler [Exception_cls] resolverBase []))
     (Instance (new_exc KeyError_cls ''id'')) = Some resolverBase"
    using exact_type_wins [of "new_exc KeyError_cls ''id''" LookupError_cls resolverSpecific
        Exception_cls resolverBase "[]"]
    by (simp add: new_exc_def class_defs dict_keys_def)
qed

text \<open>
  Claim C1 as stated fails: with \<open>LookupError\<close> registered first and its subclass
  \<open>KeyError\<close> second, a raised \<open>KeyError\<close> resolves to the second handler, not to the
  first.
\<close>

theorem first_registered_ancestor_counterexample:
  "issubclass KeyError_cls LookupError_cls
   \<and> get_exception_handler
       (register_exception_handler [KeyError_cls] resolverSpecific
         (register_exception_handler [LookupError_cls] resolverBase initial_exception_handlers))
       (Instance (new_exc KeyError_cls ''id'')) = Some resolverSpecific
   \<and> Some resolverSpecific \<noteq> Some resolverBase"
proof (intro conjI)
  show "issubclass KeyError_cls LookupError_cls"
    by (simp add: class_defs)
  show "get_exception_handler
       (register_exception_handler [KeyError_cls] resolverSpecific
         (register_exception_handler [LookupError_cls] resolverBase initial_exception_handlers))
       (Instance (new_exc KeyError_cls ''id'')) = Some resolverSpecific"
    by (simp add: get_exception_handler_def dict_contains_def initial_exception_handlers_def
        new_exc_def class_defs)
  have "resolverSpecific (new_exc KeyError_cls ''id'') \<noteq> resolverBase (new_exc KeyError_cls ''id'')"
    by (simp add: resolverSpecific_def resolverBase_def)
  then show "Some resolverSpecific \<noteq> Some resolverBase"
    by auto
qed

text \<open>
  Claim C2. For an exception object whose class is a key of the registry,
  \<open>get_exception_handler\<close> returns the entry of that class, whatever the other entries are;
  that entry holds the handler of the latest registration that named the class. When the
  class is not a key, it returns the handler of the first entry, in the order of the
  dictionary, whose class the object is an instance of, and \<open>None\<close> when there is none.
\<close>

theorem get_exception_handler_instance:
  "(dict_get reg (exc_class e) = Some h \<longrightarrow> get_exception_handler reg (Instance e) = Some h)
   \<and> (dict_get reg (exc_class e) = None \<longrightarrow>
        get_exception_handler reg (Instance e) =
          map_option snd (find (\<lambda>(key, handler). isinstance (Instance e) key) reg))
   \<and> dict_get (register_exception_handler exceptions func reg) T =
        (if T \<in> set exceptions then Some func else dict_get reg T)"
  by (simp add: get_exception_handler_def dict_contains_def handlers_loop_instance
      dict_get_register)

theorem get_exception_handler_instance_witness:
  "get_exception_handler
     [(Exception_cls, resolverBase), (LookupError_cls, resolverSpecific)]
     (Instance (new_exc LookupError_cls ''id'')) = Some resolverSpecific
   \<and> get_exception_handler
     [(LookupError_cls, resolverBase), (Exception_cls, resolverSpecific)]
     (Instance (new_exc KeyError_cls ''id'')) = Some resolverBase
   \<and> get_exception_handler initial_exception_handlers
     (Instance (new_exc KeyError_cls ''id'')) = None"
proof (intro conjI)
  show "get_exception_handler
     [(Exception_cls, resolverBase), (LookupError_cls, resolverSpecific)]
     (Instance (new_exc LookupError_cls ''id'')) = Some resolverSpecific"
    using get_exception_handler_instance
      [of "[(Exception_cls, resolverBase), (LookupError_cls, resolverSpecific)]"
          "new_exc LookupError_cls ''id''" resolverSpecific]
    by (simp add: new_exc_def class_defs)
  show "get_exception_handler
     [(LookupError_cls, resolverBase), (Exception_cls, resolverSpecific)]
     (Instance (new_exc KeyError_cls ''id'')) = Some resolverBase"
    using get_exception_handler_instance
      [of "[(LookupError_cls, resolverBase), (Exception_cls, resolverSpecific)]"
          "new_exc KeyError_cls ''id''"]
    by (simp add: new_exc_def class_defs isinstance_def class_of_def)
  show "get_exception_handler initial_exception_handlers
     (Instance (new_exc KeyError_cls ''id'')) = None"
    using get_exception_handler_instance
      [of initial_exception_handlers "new_exc KeyError_cls ''id''"]
    by (simp add: new_exc_def class_defs isinstance_def class_of_def
        initial_exception_handlers_def)
qed

text \<open>
  Claim C7, as the code has it. The registry is one dictionary. Registering \<open>T\<close> again
  overwrites the entry of \<open>T\<close>: the lookup of \<open>T\<close> gives the new handler, the sequence of
  registered classes is the one before the second registration, the registry holds exactly
  one entry for \<open>T\<close> and it carries the new handler, the entries of the other classes are
  untouched, and no registration removes a registered class.
\<close>

theorem register_again_overwrites:
  "dict_get (register_exception_handler [T] r2 (register_exception_handler [T] r1 reg)) T = Some r2
   \<and> dict_keys (register_exception_handler [T] r2 (register_exception_handler [T] r1 reg))
       = dict_keys (register_exception_handler [T] r1 reg)
   \<and> (distinct (dict_keys reg) \<longrightarrow>
        filter (\<lambda>kv. fst kv = T)
          (register_exception_handler [T] r2 (register_exception_handler [T] r1 reg)) = [(T, r2)])
   \<and> (\<forall>k. k \<noteq> T \<longrightarrow>
        dict_get (register_exception_handler [T] r2 (register_exception_handler [T] r1 reg)) k
          = dict_get reg k)
   \<and> set (dict_keys reg) \<subseteq> set (dict_keys (register_exception_handler exceptions func reg))"
proof -
  have d1: "distinct (dict_keys (dict_set T r1 reg))" if "distinct (dict_keys reg)"
    using that by (simp add: dict_keys_dict_set)
  show ?thesis
    using d1
    by (simp add: dict_get_dict_set dict_keys_dict_set filter_key_dict_set
        dict_keys_register_mono)
qed

theorem register_again_overwrites_witness:
  "dict_get (register_exception_handler [KeyError_cls] resolverSpecific
      (register_exception_handler [KeyError_cls] resolverBase initial_exception_handlers))
      KeyError_cls = Some resolverSpecific
   \<and> filter (\<lambda>kv. fst kv = KeyError_cls)
       (register_exception_handler [KeyError_cls] resolverSpecific
         (register_exception_handler [KeyError_cls] resolverBase initial_exception_handlers))
       = [(KeyError_cls, resolverSpecific)]
   \<and> dict_get (register_exception_handler [KeyError_cls] resolverSpecific
      (register_exception_handler [KeyError_cls] resolverBase initial_exception_handlers))
      SanicException_cls = Some sanic_exceptions"
  using register_again_overwrites
    [of KeyError_cls resolverSpecific resolverBase initial_exception_handlers]
  by (simp add: initial_exception_handlers_def dict_keys_def class_defs)

text \<open>
  Claim C7 as stated fails: after \<open>KeyError\<close> is registered twice, the registry has one
  entry for it, and the record of the first registration is gone.
\<close>

theorem register_again_counterexample:
  "register_exception_handler [KeyError_cls] resolverSpecific
     (register_exception_handler [KeyError_cls] resolverBase initial_exception_handlers)
     = [(SanicException_cls, sanic_exceptions), (KeyError_cls, resolverSpecific)]
   \<and> (KeyError_cls, resolverBase) \<notin> set
       (register_exception_handler [KeyError_cls] resolverSpecific
         (register_exception_handler [KeyError_cls] resolverBase initial_exception_handlers))"
proof -
  have "resolverBase (new_exc KeyError_cls ''id'') \<noteq> resolverSpecific (new_exc KeyError_cls ''id'')"
    by (simp add: resolverSpecific_def resolverBase_def)
  then have ne: "resolverBase \<noteq> resolverSpecific" by auto
  show ?thesis using ne
    by (simp add: initial_exception_handlers_def class_defs)
qed

section \<open>Claims about the aggregation of the body\<close>

lemma source_collapse: "(case v of PList [x] \<Rightarrow> x | _ \<Rightarrow> v) = spec_collapse v"
proof (cases v)
  case (PList xs)
  then show ?thesis
  proof (cases xs)
    case Nil
    with PList show ?thesis by simp
  next
    case (Cons a ys)
    with PList show ?thesis by (cases ys) simp_all
  qed
qed simp_all

lemma spec_collapse_other: "(\<forall>xs. v \<noteq> PList xs) \<Longrightarrow> spec_collapse v = v"
  by (cases v) simp_all

lemma params_loop_lookup:
  "set keys \<subseteq> set (dict_keys params) \<Longrightarrow>
   \<exists>d. params_loop params keys args = Returned d \<and>
       (\<forall>k. dict_get d k =
          (if k \<in> set keys then map_option spec_collapse (dict_get params k)
           else dict_get args k))"
proof (induction keys arbitrary: args)
  case Nil
  then show ?case by simp
next
  case (Cons key keys)
  from Cons.prems obtain val where val: "dict_get params key = Some val"
    using dict_get_None_iff [of params key] by (cases "dict_get params key") auto
  from Cons.prems have sub: "set keys \<subseteq> set (dict_keys params)" by simp
  from Cons.IH [OF sub, of "dict_set key (spec_collapse val) args"]
  obtain d where d: "params_loop params keys (dict_set key (spec_collapse val) args) = Returned d"
    and look: "\<forall>k. dict_get d k =
          (if k \<in> set keys then map_option spec_collapse (dict_get params k)
           else dict_get (dict_set key (spec_collapse val) args) k)"
    by blast
  have "params_loop params (key # keys) args = Returned d"
    using val d by (simp add: source_collapse)
  moreover have "\<forall>k. dict_get d k =
          (if k \<in> set (key # keys) then map_option spec_collapse (dict_get params k)
           else dict_get args k)"
    using look val by (auto simp: dict_get_dict_set)
  ultimately show ?case by blast
qed

lemma params_loop_items:
  "distinct (map fst ps) \<Longrightarrow> \<forall>(k, v)\<in>set ps. dict_get params k = Some v \<Longrightarrow>
   set (map fst ps) \<inter> set (dict_keys args) = {} \<Longrightarrow>
   params_loop params (map fst ps) args =
     Returned (args @ map (\<lambda>(k, v). (k, spec_collapse v)) ps)"
proof (induction ps arbitrary: args)
  case Nil
  then show ?case by simp
next
  case (Cons p ps)
  obtain k v where p: "p = (k, v)" by (cases p)
  from Cons.prems p have kv: "dict_get params k = Some v" by simp
  from Cons.prems p have fresh: "k \<notin> set (dict_keys args)" by auto
  have step: "dict_set k (spec_collapse v) args = args @ [(k, spec_collapse v)]"
    using fresh by (rule dict_set_append)
  have disj: "set (map fst ps) \<inter> set (dict_keys (args @ [(k, spec_collapse v)])) = {}"
    using Cons.prems p by (auto simp: dict_keys_def)
  have "params_loop params (map fst ps) (args @ [(k, spec_collapse v)]) =
     Returned ((args @ [(k, spec_collapse v)]) @ map (\<lambda>(k, v). (k, spec_collapse v)) ps)"
    using Cons.prems disj by (intro Cons.IH) auto
  then show ?case using kv step p by (simp add: source_collapse)
qed

lemma params_from_dictparams_lookup:
  "\<exists>d. params_from_dictparams params = Returned d \<and>
       (\<forall>k. dict_get d k = map_option spec_collapse (dict_get params k))"
proof -
  from params_loop_lookup [of "dict_keys params" params "[]"]
  obtain d where d: "params_loop params (dict_keys params) [] = Returned d"
    and look: "\<forall>k. dict_get d k =
          (if k \<in> set (dict_keys params) then map_option spec_collapse (dict_get params k)
           else dict_get [] k)"
    by blast
  have "dict_get d k = map_option spec_collapse (dict_get params k)" for k
    using look dict_get_None_iff [of params k] by (cases "k \<in> set (dict_keys params)") auto
  with d show ?thesis by (auto simp: params_from_dictparams_def)
qed

lemma params_from_dictparams_distinct:
  "distinct (dict_keys params) \<Longrightarrow>
   params_from_dictparams params = Returned (map (\<lambda>(k, v). (k, spec_collapse v)) params)"
proof -
  assume dist: "distinct (dict_keys params)"
  then have "\<forall>(k, v)\<in>set params. dict_get params k = Some v"
    using dict_get_distinct by fastforce
  with dist show ?thesis
    using params_loop_items [of params params "[]"]
    by (simp add: params_from_dictparams_def dict_keys_def)
qed

text \<open>
  Claim C9. \<open>params_from_dictparams\<close> always returns, and the dictionary it returns maps
  every key of \<open>params\<close> to the collapsed value: a list of length exactly 1 is replaced by
  its single element, every other value (a list of length 0, 2 or more, a value that is no
  list) is kept; the keys keep their order. It is the step applied to the query arguments
  of a request that is no POST, and to the form fields under \<open>multipart/form-data\<close>.
  \<open>{tag: ["x"]}\<close> becomes \<open>{tag: "x"}\<close>, and \<open>{tag: ["x", "y"]}\<close> stays.
\<close>

theorem params_from_dictparams_collapses:
  "(\<exists>d. params_from_dictparams params = Returned d \<and>
        (\<forall>k. dict_get d k = map_option spec_collapse (dict_get params k)))
   \<and> (distinct (dict_keys params) \<longrightarrow>
        params_from_dictparams params = Returned (map (\<lambda>(k, v). (k, spec_collapse v)) params))
   \<and> spec_collapse (PList [x]) = x
   \<and> (\<forall>xs. length xs \<noteq> 1 \<longrightarrow> spec_collapse (PList xs) = PList xs)
   \<and> (\<forall>v. (\<forall>xs. v \<noteq> PList xs) \<longrightarrow> spec_collapse v = v)
   \<and> (request_method request \<noteq> ''POST'' \<and> request_args request = Some a \<and> a \<noteq> [] \<longrightarrow>
        import_body_args request = params_from_dictparams a)
   \<and> (request_form request = Some f \<and> f \<noteq> []
        \<and> str_in ''multipart/form-data'' (request_content_type request) \<longrightarrow>
        import_body_form request = params_from_dictparams f)
   \<and> params_from_dictparams [(''tag'', PList [PStr ''x''])] = Returned [(''tag'', PStr ''x'')]
   \<and> params_from_dictparams [(''tag'', PList [PStr ''x'', PStr ''y''])]
        = Returned [(''tag'', PList [PStr ''x'', PStr ''y''])]"
proof (intro conjI)
  show "\<exists>d. params_from_dictparams params = Returned d \<and>
        (\<forall>k. dict_get d k = map_option spec_collapse (dict_get params k))"
    by (rule params_from_dictparams_lookup)
  show "distinct (dict_keys params) \<longrightarrow>
        params_from_dictparams params = Returned (map (\<lambda>(k, v). (k, spec_collapse v)) params)"
    by (simp add: params_from_dictparams_distinct)
  show "spec_collapse (PList [x]) = x" by simp
  show "\<forall>xs. length xs \<noteq> 1 \<longrightarrow> spec_collapse (PList xs) = PList xs" by simp
  show "\<forall>v. (\<forall>xs. v \<noteq> PList xs) \<longrightarrow> spec_collapse v = v"
    by (simp add: spec_collapse_other)
  show "request_method request \<noteq> ''POST'' \<and> request_args request = Some a \<and> a \<noteq> [] \<longrightarrow>
        import_body_args request = params_from_dictparams a"
    by (simp add: import_body_args_def)
  show "request_form request = Some f \<and> f \<noteq> []
        \<and> str_in ''multipart/form-data'' (request_content_type request) \<longrightarrow>
        import_body_form request = params_from_dictparams f"
    by (simp add: import_body_form_def)
  show "params_from_dictparams [(''tag'', PList [PStr ''x''])] = Returned [(''tag'', PStr ''x'')]"
    by (simp add: params_from_dictparams_def dict_keys_def)
  show "params_from_dictparams [(''tag'', PList [PStr ''x'', PStr ''y''])]
        = Returned [(''tag'', PList [PStr ''x'', PStr ''y''])]"
    by (simp add: params_from_dictparams_def dict_keys_def)
qed

theorem params_from_dictparams_collapses_witness:
  "params_from_dictparams
     [(''id'', PList [PStr ''3'']), (''tag'', PList [PStr ''x'', PStr ''y'']),
      (''none'', PList []), (''n'', PInt 7)]
     = Returned [(''id'', PStr ''3''), (''tag'', PList [PStr ''x'', PStr ''y'']),
                 (''none'', PList []), (''n'', PInt 7)]
   \<and> import_body_args (example_request ''GET'')
     = Returned [(''id'', PStr ''3''), (''tag'', PList [PStr ''x'', PStr ''y''])]"
proof
  show "params_from_dictparams
     [(''id'', PList [PStr ''3'']), (''tag'', PList [PStr ''x'', PStr ''y'']),
      (''none'', PList []), (''n'', PInt 7)]
     = Returned [(''id'', PStr ''3''), (''tag'', PList [PStr ''x'', PStr ''y'']),
                 (''none'', PList []), (''n'', PInt 7)]"
    using params_from_dictparams_collapses
      [of "[(''id'', PList [PStr ''3'']), (''tag'', PList [PStr ''x'', PStr ''y'']),
            (''none'', PList []), (''n'', PInt 7)]"]
    by (simp add: dict_keys_def)
  have "import_body_args (example_request ''GET'')
     = params_from_dictparams
         [(''id'', PList [PStr ''3'']), (''tag'', PList [PStr ''x'', PStr ''y''])]"
    using params_from_dictparams_collapses
      [of _ _ "example_request ''GET''"
          "[(''id'', PList [PStr ''3'']), (''tag'', PList [PStr ''x'', PStr ''y''])]"]
    by (simp add: example_request_def)
  moreover have "params_from_dictparams
         [(''id'', PList [PStr ''3'']), (''tag'', PList [PStr ''x'', PStr ''y''])]
     = Returned [(''id'', PStr ''3''), (''tag'', PList [PStr ''x'', PStr ''y''])]"
    using params_from_dictparams_collapses
      [of "[(''id'', PList [PStr ''3'']), (''tag'', PList [PStr ''x'', PStr ''y''])]"]
    by (simp add: dict_keys_def)
  ultimately show "import_body_args (example_request ''GET'')
     = Returned [(''id'', PStr ''3''), (''tag'', PList [PStr ''x'', PStr ''y''])]"
    by simp
qed

lemma files_comprehension_files:
  "files_comprehension (map (\<lambda>(t, b, n). PFile t b n) ts) =
     Returned (map (\<lambda>(t, b, n).
       PDict [(''type'', PStr t), (''body'', PBytes b), (''name'', PStr n)]) ts)"
  by (induction ts) auto

lemma is_file_items:
  "list_all is_file items \<Longrightarrow> \<exists>ts. items = map (\<lambda>(t, b, n). PFile t b n) ts"
proof (induction items)
  case Nil
  then show ?case by simp
next
  case (Cons f items)
  then obtain ts where ts: "items = map (\<lambda>(t, b, n). PFile t b n) ts" by auto
  from Cons.prems obtain t b n where "f = PFile t b n" by (cases f) auto
  with ts have "f # items = map (\<lambda>(t, b, n). PFile t b n) ((t, b, n) # ts)" by simp
  then show ?case by (rule exI [of _ "(t, b, n) # ts"])
qed

lemma files_comprehension_returns:
  "list_all is_file items \<Longrightarrow> \<exists>ds. files_comprehension items = Returned ds"
  using is_file_items [of items] files_comprehension_files by metis

lemma files_loop_lookup:
  "set keys \<subseteq> set (dict_keys fs) \<Longrightarrow>
   \<forall>k\<in>set keys. \<forall>v. dict_get fs k = Some v \<longrightarrow> file_items v \<Longrightarrow>
   \<exists>d. files_loop fs keys acc = Returned d
     \<and> (\<forall>k. k \<notin> set keys \<longrightarrow> dict_get d k = dict_get acc k)
     \<and> (\<forall>k\<in>set keys. \<forall>items. dict_get fs k = Some (PList items) \<longrightarrow>
           (\<exists>ds. files_comprehension items = Returned ds \<and> dict_get d k = Some (PList ds)))
     \<and> (\<forall>k\<in>set keys. \<forall>v. dict_get fs k = Some v \<longrightarrow> (\<forall>items. v \<noteq> PList items) \<longrightarrow>
           dict_get d k = Some (PDict fs))"
proof (induction keys arbitrary: acc)
  case Nil
  then show ?case by simp
next
  case (Cons key keys)
  from Cons.prems obtain val where val: "dict_get fs key = Some val"
    using dict_get_None_iff [of fs key] by (cases "dict_get fs key") auto
  from Cons.prems have sub: "set keys \<subseteq> set (dict_keys fs)" by simp
  from Cons.prems have ok: "\<forall>k\<in>set keys. \<forall>v. dict_get fs k = Some v \<longrightarrow> file_items v"
    by simp
  from Cons.prems val have okv: "file_items val" by simp
  show ?case
  proof (cases "\<exists>items. val = PList items")
    case True
    then obtain items where items: "val = PList items" by blast
    with okv obtain ds where ds: "files_comprehension items = Returned ds"
      using files_comprehension_returns by auto
    from Cons.IH [OF sub ok, of "dict_set key (PList ds) acc"]
    obtain d where d: "files_loop fs keys (dict_set key (PList ds) acc) = Returned d"
      and rest: "\<forall>k. k \<notin> set keys \<longrightarrow> dict_get d k = dict_get (dict_set key (PList ds) acc) k"
      and lists: "\<forall>k\<in>set keys. \<forall>items. dict_get fs k = Some (PList items) \<longrightarrow>
           (\<exists>ds. files_comprehension items = Returned ds \<and> dict_get d k = Some (PList ds))"
      and others: "\<forall>k\<in>set keys. \<forall>v. dict_get fs k = Some v \<longrightarrow> (\<forall>items. v \<noteq> PList items) \<longrightarrow>
           dict_get d k = Some (PDict fs)"
      by blast
    have run: "files_loop fs (key # keys) acc = Returned d"
      using val items ds d by simp
    have r1: "\<forall>k. k \<notin> set (key # keys) \<longrightarrow> dict_get d k = dict_get acc k"
      using rest by (simp add: dict_get_dict_set)
    have r2: "\<forall>k\<in>set (key # keys). \<forall>its. dict_get fs k = Some (PList its) \<longrightarrow>
           (\<exists>ds. files_comprehension its = Returned ds \<and> dict_get d k = Some (PList ds))"
    proof (intro ballI allI impI)
      fix k its
      assume k: "k \<in> set (key # keys)" and its: "dict_get fs k = Some (PList its)"
      show "\<exists>ds. files_comprehension its = Returned ds \<and> dict_get d k = Some (PList ds)"
      proof (cases "k \<in> set keys")
        case True
        with lists its show ?thesis by blast
      next
        case False
        with k have kk: "k = key" by simp
        with its val items have "its = items" by simp
        moreover from False kk rest have "dict_get d k = Some (PList ds)"
          by (simp add: dict_get_dict_set)
        ultimately show ?thesis using ds by blast
      qed
    qed
    have r3: "\<forall>k\<in>set (key # keys). \<forall>v. dict_get fs k = Some v \<longrightarrow>
           (\<forall>items. v \<noteq> PList items) \<longrightarrow> dict_get d k = Some (PDict fs)"
    proof (intro ballI allI impI)
      fix k v
      assume k: "k \<in> set (key # keys)" and v: "dict_get fs k = Some v"
        and nl: "\<forall>items. v \<noteq> PList items"
      show "dict_get d k = Some (PDict fs)"
      proof (cases "k \<in> set keys")
        case True
        with others v nl show ?thesis by blast
      next
        case False
        with k have "k = key" by simp
        with v val items nl show ?thesis by auto
      qed
    qed
    from run r1 r2 r3 show ?thesis by blast
  next
    case False
    then have nl: "\<forall>items. val \<noteq> PList items" by blast
    from Cons.IH [OF sub ok, of "dict_set key (PDict fs) acc"]
    obtain d where d: "files_loop fs keys (dict_set key (PDict fs) acc) = Returned d"
      and rest: "\<forall>k. k \<notin> set keys \<longrightarrow> dict_get d k = dict_get (dict_set key (PDict fs) acc) k"
      and lists: "\<forall>k\<in>set keys. \<forall>items. dict_get fs k = Some (PList items) \<longrightarrow>
           (\<exists>ds. files_comprehension items = Returned ds \<and> dict_get d k = Some (PList ds))"
      and others: "\<forall>k\<in>set keys. \<forall>v. dict_get fs k = Some v \<longrightarrow> (\<forall>items. v \<noteq> PList items) \<longrightarrow>
           dict_get d k = Some (PDict fs)"
      by blast
    have run: "files_loop fs (key # keys) acc = Returned d"
      using val nl d by (cases val) simp_all
    have r1: "\<forall>k. k \<notin> set (key # keys) \<longrightarrow> dict_get d k = dict_get acc k"
      using rest by (simp add: dict_get_dict_set)
    have r2: "\<forall>k\<in>set (key # keys). \<forall>its. dict_get fs k = Some (PList its) \<longrightarrow>
           (\<exists>ds. files_comprehension its = Returned ds \<and> dict_get d k = Some (PList ds))"
    proof (intro ballI allI impI)
      fix k its
      assume k: "k \<in> set (key # keys)" and its: "dict_get fs k = Some (PList its)"
      show "\<exists>ds. files_comprehension its = Returned ds \<and> dict_get d k = Some (PList ds)"
      proof (cases "k \<in> set keys")
        case True
        with lists its show ?thesis by blast
      next
        case False
        with k have "k = key" by simp
        with its val nl show ?thesis by auto
      qed
    qed
    have r3: "\<forall>k\<in>set (key # keys). \<forall>v. dict_get fs k = Some v \<longrightarrow>
           (\<forall>items. v \<noteq> PList items) \<longrightarrow> dict_get d k = Some (PDict fs)"
    proof (intro ballI allI impI)
      fix k v
      assume k: "k \<in> set (key # keys)" and v: "dict_get fs k = Some v"
        and nlv: "\<forall>items. v \<noteq> PList items"
      show "dict_get d k = Some (PDict fs)"
      proof (cases "k \<in> set keys")
        case True
        with others v nlv show ?thesis by blast
      next
        case False
        with k have kk: "k = key" by simp
        with False rest show ?thesis by (simp add: dict_get_dict_set)
      qed
    qed
    from run r1 r2 r3 show ?thesis by blast
  qed
qed

lemma dict_get_in_set: "dict_get d k = Some v \<Longrightarrow> (k, v) \<in> set d"
  by (induction d) (auto split: if_splits)

text \<open>
  Claim C10. For a request whose \<open>files\<close> multimap is not empty (and holds \<open>File\<close> items
  in its lists), \<open>import_body_files\<close> returns a dictionary that maps each key whose value
  is a list to the list of its items projected to \<open>{type, body, name}\<close>, maps each key
  whose value is no list to the whole raw \<open>files\<close> multimap, and has no other key. When
  \<open>files\<close> is \<open>None\<close> or empty, it returns the empty dictionary.
\<close>

theorem import_body_files_maps:
  "(request_files request = Some fs \<and> fs \<noteq> [] \<and> (\<forall>(k, v)\<in>set fs. file_items v) \<longrightarrow>
      (\<exists>d. import_body_files request = Returned d
         \<and> (\<forall>k. dict_get fs k = None \<longrightarrow> dict_get d k = None)
         \<and> (\<forall>k ts. dict_get fs k = Some (PList (map (\<lambda>(t, b, n). PFile t b n) ts)) \<longrightarrow>
               dict_get d k = Some (PList (map (\<lambda>(t, b, n).
                 PDict [(''type'', PStr t), (''body'', PBytes b), (''name'', PStr n)]) ts)))
         \<and> (\<forall>k v. dict_get fs k = Some v \<longrightarrow> (\<forall>items. v \<noteq> PList items) \<longrightarrow>
               dict_get d k = Some (PDict fs))))
   \<and> (request_files request = None \<or> request_files request = Some [] \<longrightarrow>
        import_body_files request = Returned [])"
proof (intro conjI impI)
  assume a: "request_files request = Some fs \<and> fs \<noteq> [] \<and> (\<forall>(k, v)\<in>set fs. file_items v)"
  have ok: "\<forall>k\<in>set (dict_keys fs). \<forall>v. dict_get fs k = Some v \<longrightarrow> file_items v"
    using a dict_get_in_set [of fs] by fastforce
  from files_loop_lookup [of "dict_keys fs" fs "[]", OF subset_refl ok]
  obtain d where d: "files_loop fs (dict_keys fs) [] = Returned d"
    and rest: "\<forall>k. k \<notin> set (dict_keys fs) \<longrightarrow> dict_get d k = dict_get [] k"
    and lists: "\<forall>k\<in>set (dict_keys fs). \<forall>items. dict_get fs k = Some (PList items) \<longrightarrow>
           (\<exists>ds. files_comprehension items = Returned ds \<and> dict_get d k = Some (PList ds))"
    and others: "\<forall>k\<in>set (dict_keys fs). \<forall>v. dict_get fs k = Some v \<longrightarrow>
           (\<forall>items. v \<noteq> PList items) \<longrightarrow> dict_get d k = Some (PDict fs)"
    by blast
  have key_in: "k \<in> set (dict_keys fs)" if "dict_get fs k = Some v" for k v
    using that dict_get_None_iff [of fs k] by auto
  have run: "import_body_files request = Returned d"
    using a d by (simp add: import_body_files_def)
  have c1: "\<forall>k. dict_get fs k = None \<longrightarrow> dict_get d k = None"
    using rest by (simp add: dict_get_None_iff)
  have c2: "\<forall>k ts. dict_get fs k = Some (PList (map (\<lambda>(t, b, n). PFile t b n) ts)) \<longrightarrow>
               dict_get d k = Some (PList (map (\<lambda>(t, b, n).
                 PDict [(''type'', PStr t), (''body'', PBytes b), (''name'', PStr n)]) ts))"
  proof (intro allI impI)
    fix k ts
    assume g: "dict_get fs k = Some (PList (map (\<lambda>(t, b, n). PFile t b n) ts))"
    with lists key_in obtain ds where
      "files_comprehension (map (\<lambda>(t, b, n). PFile t b n) ts) = Returned ds"
      and "dict_get d k = Some (PList ds)"
      by blast
    then show "dict_get d k = Some (PList (map (\<lambda>(t, b, n).
                 PDict [(''type'', PStr t), (''body'', PBytes b), (''name'', PStr n)]) ts))"
      by (simp add: files_comprehension_files)
  qed
  have c3: "\<forall>k v. dict_get fs k = Some v \<longrightarrow> (\<forall>items. v \<noteq> PList items) \<longrightarrow>
               dict_get d k = Some (PDict fs)"
    using others key_in by blast
  from run c1 c2 c3
  show "\<exists>d. import_body_files request = Returned d
         \<and> (\<forall>k. dict_get fs k = None \<longrightarrow> dict_get d k = None)
         \<and> (\<forall>k ts. dict_get fs k = Some (PList (map (\<lambda>(t, b, n). PFile t b n) ts)) \<longrightarrow>
               dict_get d k = Some (PList (map (\<lambda>(t, b, n).
                 PDict [(''type'', PStr t), (''body'', PBytes b), (''name'', PStr n)]) ts)))
         \<and> (\<forall>k v. dict_get fs k = Some v \<longrightarrow> (\<forall>items. v \<noteq> PList items) \<longrightarrow>
               dict_get d k = Some (PDict fs))"
    by blast
next
  assume "request_files request = None \<or> request_files request = Some []"
  then show "import_body_files request = Returned []"
    by (auto simp: import_body_files_def)
qed

theorem import_body_files_maps_witness:
  "import_body_files
     (example_files_request
        [(''photos'', PList [PFile ''image/png'' ''abc'' ''a.png'',
                             PFile ''image/gif'' ''def'' ''b.gif'']),
         (''avatar'', PFile ''image/png'' ''xyz'' ''me.png'')])
   = Returned
       [(''photos'', PList
           [PDict [(''type'', PStr ''image/png''), (''body'', PBytes ''abc''),
                   (''name'', PStr ''a.png'')],
            PDict [(''type'', PStr ''image/gif''), (''body'', PBytes ''def''),
                   (''name'', PStr ''b.gif'')]]),
        (''avatar'', PDict
           [(''photos'', PList [PFile ''image/png'' ''abc'' ''a.png'',
                                PFile ''image/gif'' ''def'' ''b.gif'']),
            (''avatar'', PFile ''image/png'' ''xyz'' ''me.png'')])]
   \<and> import_body_files (example_request ''POST'') = Returned []"
proof
  show "import_body_files
     (example_files_request
        [(''photos'', PList [PFile ''image/png'' ''abc'' ''a.png'',
                             PFile ''image/gif'' ''def'' ''b.gif'']),
         (''avatar'', PFile ''image/png'' ''xyz'' ''me.png'')])
   = Returned
       [(''photos'', PList
           [PDict [(''type'', PStr ''image/png''), (''body'', PBytes ''abc''),
                   (''name'', PStr ''a.png'')],
            PDict [(''type'', PStr ''image/gif''), (''body'', PBytes ''def''),
                   (''name'', PStr ''b.gif'')]]),
        (''avatar'', PDict
           [(''photos'', PList [PFile ''image/png'' ''abc'' ''a.png'',
                                PFile ''image/gif'' ''def'' ''b.gif'']),
            (''avatar'', PFile ''image/png'' ''xyz'' ''me.png'')])]"
    using import_body_files_maps
      [of "example_files_request
        [(''photos'', PList [PFile ''image/png'' ''abc'' ''a.png'',
                             PFile ''image/gif'' ''def'' ''b.gif'']),
         (''avatar'', PFile ''image/png'' ''xyz'' ''me.png'')]"
        "[(''photos'', PList [PFile ''image/png'' ''abc'' ''a.png'',
                             PFile ''image/gif'' ''def'' ''b.gif'']),
         (''avatar'', PFile ''image/png'' ''xyz'' ''me.png'')]"]
    by (simp add: example_files_request_def import_body_files_def dict_keys_def)
  show "import_body_files (example_request ''POST'') = Returned []"
    using import_body_files_maps [of "example_request ''POST''"]
    by (simp add: example_request_def)
qed

lemma headers_loop_no_x:
  "\<forall>h\<in>set keys. lower (take 2 h) \<noteq> ''x-'' \<Longrightarrow> headers_loop hs keys acc = Returned acc"
  by (induction keys arbitrary: acc) auto

text \<open>
  Claim C8, as the code has it. For every request with method POST, a content type that
  contains \<open>application/json\<close> and the JSON body \<open>{id: "2"}\<close>: the query arguments
  contribute nothing, whatever they are, so the aggregated body does not depend on them;
  the JSON body is what \<open>import_body_json\<close> contributes; and the aggregated body, before
  \<open>auth\<close> is stored, is \<open>{id: "2"}\<close> when the other sources contribute nothing (path
  parameters absent, empty or only \<open>id\<close>, no files, no form fields, no header whose name
  starts with \<open>x-\<close>).
\<close>

theorem post_json_body:
  assumes "request_method request = ''POST''"
    and "str_in ''application/json'' (request_content_type request)"
    and "request_json request = Some [(''id'', PStr ''2'')]"
  shows "import_body_args request = Returned []
       \<and> import_body_json request = [(''id'', PStr ''2'')]
       \<and> handle_body (request\<lparr>request_args := query_args\<rparr>) = handle_body request
       \<and> ((request_match_info request = None \<or> request_match_info request = Some []
             \<or> (\<exists>v. request_match_info request = Some [(''id'', v)]))
           \<and> (request_files request = None \<or> request_files request = Some [])
           \<and> (request_form request = None \<or> request_form request = Some [])
           \<and> (\<forall>h\<in>set (dict_keys (request_headers request)). lower (take 2 h) \<noteq> ''x-'')
           \<longrightarrow> handle_body request = Returned [(''id'', PStr ''2'')])"
proof (intro conjI impI)
  show a: "import_body_args request = Returned []"
    using assms(1) by (simp add: import_body_args_def)
  show j: "import_body_json request = [(''id'', PStr ''2'')]"
    using assms(2,3) by (simp add: import_body_json_def)
  have a': "import_body_args (request\<lparr>request_args := query_args\<rparr>) = Returned []"
    using assms(1) by (simp add: import_body_args_def)
  have m': "import_body_match_info (request\<lparr>request_args := query_args\<rparr>)
            = import_body_match_info request"
    by (simp add: import_body_match_info_def)
  have j': "import_body_json (request\<lparr>request_args := query_args\<rparr>)
            = import_body_json request"
    by (simp add: import_body_json_def)
  have fi': "import_body_files (request\<lparr>request_args := query_args\<rparr>)
            = import_body_files request"
    by (simp add: import_body_files_def)
  have fo': "import_body_form (request\<lparr>request_args := query_args\<rparr>)
            = import_body_form request"
    by (simp add: import_body_form_def split: option.splits)
  have h': "import_body_headers (request\<lparr>request_args := query_args\<rparr>)
            = import_body_headers request"
    by (simp add: import_body_headers_def)
  show "handle_body (request\<lparr>request_args := query_args\<rparr>) = handle_body request"
    unfolding handle_body_def a a' m' j' fi' fo' h' ..
  assume rest: "(request_match_info request = None \<or> request_match_info request = Some []
             \<or> (\<exists>v. request_match_info request = Some [(''id'', v)]))
           \<and> (request_files request = None \<or> request_files request = Some [])
           \<and> (request_form request = None \<or> request_form request = Some [])
           \<and> (\<forall>h\<in>set (dict_keys (request_headers request)). lower (take 2 h) \<noteq> ''x-'')"
  have fi: "import_body_files request = Returned []"
    using rest by (auto simp: import_body_files_def)
  have fo: "import_body_form request = Returned []"
    using rest by (auto simp: import_body_form_def)
  have h: "import_body_headers request = Returned []"
    using rest by (simp add: import_body_headers_def headers_loop_no_x)
  have m: "dict_update (dict_update [] (import_body_match_info request)) [(''id'', PStr ''2'')]
           = [(''id'', PStr ''2'')]"
    using rest by (auto simp: import_body_match_info_def)
  show "handle_body request = Returned [(''id'', PStr ''2'')]"
    using a j fi fo h m by (simp add: handle_body_def then_outcome_def)
qed

theorem post_json_body_witness:
  "handle_body (example_request ''POST'') = Returned [(''id'', PStr ''2'')]
   \<and> request_args (example_request ''POST'')
       = Some [(''id'', PList [PStr ''3'']), (''tag'', PList [PStr ''x'', PStr ''y''])]"
  using post_json_body [of "example_request ''POST''"]
  by (simp add: example_request_def dict_keys_def lower_def lower_char_def)

text \<open>
  Claim C8 as stated fails: a POST request with a JSON content type, the JSON body
  \<open>{id: "2"}\<close>, query arguments and a header \<open>X-Trace\<close> gets the body
  \<open>{id: "2", X-Trace: "abc"}\<close>.
\<close>

theorem post_json_body_counterexample:
  "request_method ((example_request ''POST'')\<lparr>request_headers := [(''X-Trace'', PStr ''abc'')]\<rparr>)
     = ''POST''
   \<and> str_in ''application/json''
       (request_content_type
         ((example_request ''POST'')\<lparr>request_headers := [(''X-Trace'', PStr ''abc'')]\<rparr>))
   \<and> request_json ((example_request ''POST'')\<lparr>request_headers := [(''X-Trace'', PStr ''abc'')]\<rparr>)
     = Some [(''id'', PStr ''2'')]
   \<and> request_args ((example_request ''POST'')\<lparr>request_headers := [(''X-Trace'', PStr ''abc'')]\<rparr>)
     = Some [(''id'', PList [PStr ''3'']), (''tag'', PList [PStr ''x'', PStr ''y''])]
   \<and> handle_body ((example_request ''POST'')\<lparr>request_headers := [(''X-Trace'', PStr ''abc'')]\<rparr>)
     = Returned [(''id'', PStr ''2''), (''X-Trace'', PStr ''abc'')]"
  by (simp add: example_request_def handle_body_def then_outcome_def
      import_body_match_info_def import_body_json_def import_body_args_def
      import_body_files_def import_body_form_def import_body_headers_def
      dict_keys_def lower_def lower_char_def)

section \<open>Claims about the dispatch\<close>

lemma make_response_json_message:
  "make_response_json ext w code (PStr m) PNone PNone None =
     Returned (JsonResponse (PDict [(''code'', code), (''message'', PStr m)]) code
       [(''x-cross-request-id'', get_request_id ext w)])"
  by (simp add: make_response_json_def)



lemma method_except_state: "snd (method_except ext reg e st) = st"
  by (simp add: method_except_def)




lemmas example_defs =
  example_externals_def example_before_def example_before_raises_def example_after_def
  example_after_raises_def example_get_def example_post_def example_put_def example_patch_def
  example_attrs_def
  example_endpoint_def example_endpoint_before_raises_def example_endpoint_after_raises_def
  example_request_def

lemmas dispatch_defs =
  method_impl_def method_try_def method_except_def before_method_def after_method_def
  handle_method_exceptions_def get_exception_handler_def dict_contains_def
  initial_exception_handlers_def make_response_json_def then_outcome_def
  isinstance_def class_of_def new_exc_def RoutingErrorException_def sanic_exceptions_def
  lower_def lower_char_def

text \<open>
  The three paths on the example endpoint. GET: the handler returns, and both after-hooks
  are called.
\<close>

lemma example_get_dispatch:
  "method_impl example_externals initial_exception_handlers example_endpoint
     (example_request ''GET'') [(''id'', PStr ''2'')] [] ([], (0, 0)) =
   (Returned (JsonResponse (PDict [(''id'', PStr ''2''), (''checked'', PBool True)]) (PInt 200)
      [(''x-cross-request-id'', PInt 1)]),
    ([CallBefore 0 (example_request ''GET'') [(''id'', PStr ''2'')] [],
      CallVerb ''method_get'' (example_request ''GET'')
        [(''id'', PStr ''2''), (''checked'', PBool True)] [],
      CallAfter 0 (example_request ''GET'') [],
      CallAfter 1 (example_request ''GET'') []], (1, 3)))"
  by (simp add: example_defs dispatch_defs class_defs)

text \<open>
  POST: the handler raises a \<open>ValueError\<close>, no handler is registered for it, the response
  is the generic 500, and both after-hooks are called.
\<close>

lemma example_post_dispatch:
  "method_impl example_externals initial_exception_handlers example_endpoint
     (example_request ''POST'') [] [] ([], (0, 0)) =
   (Returned (JsonResponse (PDict [(''code'', PInt 500), (''message'', PStr ''boom'')]) (PInt 500)
      [(''x-cross-request-id'', PInt 1)]),
    ([CallBefore 0 (example_request ''POST'') [] [],
      CallVerb ''method_post'' (example_request ''POST'') [(''checked'', PBool True)] [],
      CallAfter 0 (example_request ''POST'') [],
      CallAfter 1 (example_request ''POST'') []], (1, 3)))"
  by (simp add: example_defs dispatch_defs class_defs)

text \<open>
  A before-hook raises: the hooks after it and the handler are not called, the after-hooks
  are.
\<close>

lemma example_before_raises_dispatch:
  "method_impl example_externals initial_exception_handlers example_endpoint_before_raises
     (example_request ''GET'') [] [] ([], (0, 0)) =
   (Returned (JsonResponse (PDict [(''code'', PInt 500), (''message'', PStr ''bad request'')])
      (PInt 500) [(''x-cross-request-id'', PInt 1)]),
    ([CallBefore 0 (example_request ''GET'') [] [],
      CallBefore 1 (example_request ''GET'') [(''checked'', PBool True)] [],
      CallAfter 0 (example_request ''GET'') [],
      CallAfter 1 (example_request ''GET'') []], (1, 3)))"
  by (simp add: example_defs dispatch_defs class_defs)

text \<open>
  The second after-hook raises: the third is not called, and the dispatch raises the hook's
  \<open>KeyError\<close> in place of the response.
\<close>

lemma example_after_raises_dispatch:
  "method_impl example_externals initial_exception_handlers example_endpoint_after_raises
     (example_request ''POST'') [] [] ([], (0, 0)) =
   (Raised (new_exc KeyError_cls ''cleanup''),
    ([CallBefore 0 (example_request ''POST'') [] [],
      CallVerb ''method_post'' (example_request ''POST'') [(''checked'', PBool True)] [],
      CallAfter 0 (example_request ''POST'') [],
      CallAfter 1 (example_request ''POST'') []], (1, 2)))"
  by (simp add: example_defs dispatch_defs class_defs)

text \<open>
  PUT: the handler raises a \<open>RoutingErrorException\<close>, which resolves to the handler of
  \<open>SanicException\<close>; the dispatch raises the \<open>ValueError\<close> of the unpacking, after the
  after-hooks.
\<close>

lemma example_put_dispatch:
  "method_impl example_externals initial_exception_handlers example_endpoint
     (example_request ''PUT'') [] [] ([], (0, 0)) =
   (Raised (new_exc ValueError_cls ''not enough values to unpack (expected 4, got 3)''),
    ([CallBefore 0 (example_request ''PUT'') [] [],
      CallVerb ''method_put'' (example_request ''PUT'') [(''checked'', PBool True)] [],
      CallAfter 0 (example_request ''PUT'') [],
      CallAfter 1 (example_request ''PUT'') []], (1, 3)))"
  by (simp add: example_defs dispatch_defs class_defs)

text \<open>
  Claim C6. When the endpoint has no attribute \<open>method_<verb>\<close> for the lower-cased
  method of the request, the dispatch returns the JSON response with status 405 and the
  message \<open>Method Not Allowed\<close>, and calls no hook: the record of calls is left as it was,
  so the counts of before-hook and after-hook calls stay zero. The same holds for \<open>handle\<close>,
  which passes the aggregated body on to the dispatch.
\<close>

theorem method_not_allowed:
  assumes "attrs self (''method_'' @ lower (request_method request)) = None"
  shows "method_impl ext reg self request body extras (tr, w) =
       (Returned (JsonResponse
          (PDict [(''code'', PInt 405), (''message'', PStr ''Method Not Allowed'')])
          (PInt 405)
          [(''x-cross-request-id'', get_request_id ext (set_request_id ext w))]),
        (tr, set_request_id ext w))
     \<and> length (filter is_hook_call
          (fst (snd (method_impl ext reg self request body extras ([], w))))) = 0
     \<and> (handle_body request = Returned b \<longrightarrow>
          handle ext reg self request auth extras (tr, w) =
            (Returned (JsonResponse
               (PDict [(''code'', PInt 405), (''message'', PStr ''Method Not Allowed'')])
               (PInt 405)
               [(''x-cross-request-id'', get_request_id ext (set_request_id ext w))]),
             (tr, set_request_id ext w)))"
  using assms by (simp add: handle_def method_impl_def make_response_json_message)

theorem method_not_allowed_witness:
  "method_impl example_externals initial_exception_handlers example_endpoint
     (example_request ''DELETE'') [] [] ([], (0, 0)) =
       (Returned (JsonResponse
          (PDict [(''code'', PInt 405), (''message'', PStr ''Method Not Allowed'')])
          (PInt 405) [(''x-cross-request-id'', PInt 1)]),
        ([], (1, 0)))"
  using method_not_allowed [of example_endpoint "example_request ''DELETE''" example_externals
      initial_exception_handlers "[]" "[]" "[]" "(0, 0)"]
  by (simp add: example_defs lower_def lower_char_def)

text \<open>
  The verbs of \<open>SanicEndpoint\<close> itself: each of the nine is present and answers with
  status 500 and the message \<open><METHOD> Not Impl\<close>; any other verb gets 405.
\<close>

lemma SanicEndpoint_not_impl:
  "lower (request_method request) \<in> set [''get'', ''head'', ''post'', ''put'', ''delete'',
       ''connect'', ''options'', ''trace'', ''patch''] \<Longrightarrow>
   method_impl ext reg (SanicEndpoint ext) request body extras (tr, w) =
     (Returned (JsonResponse
        (PDict [(''code'', PInt 500),
                (''message'', PStr (request_method request @ '' Not Impl''))])
        (PInt 500)
        [(''x-cross-request-id'', get_request_id ext (set_request_id ext w))]),
      (tr @ [CallVerb (''method_'' @ lower (request_method request)) request body extras],
       set_request_id ext w))"
  by (auto simp: method_impl_def method_try_def before_method_def after_method_def
      SanicEndpoint_def method_not_impl_def make_response_json_message)

text \<open>
  Claim C3. An exception object that resolves to the handler registered for
  \<open>SanicException\<close> never gets a response from \<open>_handle_method_exceptions\<close>: the handler
  returns the 3-tuple \<open>(status_code, str(exc), None)\<close>, and unpacking it into the four
  variables raises the \<open>ValueError\<close> of a too short sequence. (An object without the
  attribute \<open>status_code\<close> makes the handler itself raise.) In the registry as the module
  leaves it, every instance of \<open>SanicException\<close> resolves to that handler.
\<close>

theorem sanic_exceptions_unpacking_error:
  assumes "get_exception_handler reg (Instance e) = Some sanic_exceptions"
  shows "(\<exists>x. handle_method_exceptions ext reg w e = Raised x)
     \<and> (\<forall>status_code. exc_status_code e = Some status_code \<longrightarrow>
          sanic_exceptions e = Returned (PTuple [status_code, PStr (exc_str e), PNone])
          \<and> handle_method_exceptions ext reg w e =
              Raised (new_exc ValueError_cls
                ''not enough values to unpack (expected 4, got 3)''))
     \<and> (issubclass (exc_class e') SanicException_cls \<longrightarrow>
          get_exception_handler initial_exception_handlers (Instance e')
            = Some sanic_exceptions)"
proof (intro conjI allI impI)
  show "\<exists>x. handle_method_exceptions ext reg w e = Raised x"
    using assms
    by (cases "exc_status_code e")
      (simp_all add: handle_method_exceptions_def then_outcome_def sanic_exceptions_def)
next
  fix status_code
  assume sc: "exc_status_code e = Some status_code"
  then show "sanic_exceptions e = Returned (PTuple [status_code, PStr (exc_str e), PNone])"
    by (simp add: sanic_exceptions_def)
  from sc show "handle_method_exceptions ext reg w e =
      Raised (new_exc ValueError_cls ''not enough values to unpack (expected 4, got 3)'')"
    using assms
    by (simp add: handle_method_exceptions_def then_outcome_def sanic_exceptions_def)
next
  assume "issubclass (exc_class e') SanicException_cls"
  then show "get_exception_handler initial_exception_handlers (Instance e')
            = Some sanic_exceptions"
    by (auto simp: get_exception_handler_def dict_contains_def initial_exception_handlers_def
        isinstance_def class_of_def Let_def)
qed

theorem sanic_exceptions_unpacking_error_witness:
  "get_exception_handler initial_exception_handlers (Instance (RoutingErrorException ''no route''))
     = Some sanic_exceptions
   \<and> handle_method_exceptions example_externals initial_exception_handlers (1, 0)
       (RoutingErrorException ''no route'')
     = Raised (new_exc ValueError_cls ''not enough values to unpack (expected 4, got 3)'')"
proof (rule conjI)
  show h: "get_exception_handler initial_exception_handlers
       (Instance (RoutingErrorException ''no route'')) = Some sanic_exceptions"
    by (simp add: get_exception_handler_def dict_contains_def initial_exception_handlers_def
        isinstance_def class_of_def RoutingErrorException_def class_defs)
  show "handle_method_exceptions example_externals initial_exception_handlers (1, 0)
       (RoutingErrorException ''no route'')
     = Raised (new_exc ValueError_cls ''not enough values to unpack (expected 4, got 3)'')"
    using sanic_exceptions_unpacking_error [OF h, of example_externals "(1, 0)"]
    by (simp add: RoutingErrorException_def)
qed

lemma handle_method_exceptions_unregistered:
  "get_exception_handler reg (Instance e) = None \<Longrightarrow>
   handle_method_exceptions ext reg w e =
     Returned (JsonResponse
       (PDict [(''code'', PInt 500), (''message'', PStr (exc_str e))]) (PInt 500)
       [(''x-cross-request-id'', get_request_id ext w)])"
  by (simp add: handle_method_exceptions_def make_response_json_message)

lemma method_except_unregistered:
  "get_exception_handler reg (Instance e) = None \<Longrightarrow> isinstance (Instance e) Exception_cls \<Longrightarrow>
   method_except ext reg e st =
     (Returned (JsonResponse
       (PDict [(''code'', PInt 500), (''message'', PStr (exc_str e))]) (PInt 500)
       [(''x-cross-request-id'', get_request_id ext (snd st))]), st)"
  by (simp add: method_except_def handle_method_exceptions_unregistered)

lemma method_try_before_raises:
  "before_method self request body extras st = (Raised e, b1, st1) \<Longrightarrow>
   method_try ext reg self func_name func request body extras st = method_except ext reg e st1"
  by (simp add: method_try_def)

lemma method_try_verb_raises:
  "before_method self request body extras st = (Returned u, b1, st1) \<Longrightarrow>
   func request b1 extras (snd st1) = (Raised e, b2, w2) \<Longrightarrow>
   method_try ext reg self func_name func request body extras st =
     method_except ext reg e (fst st1 @ [CallVerb func_name request b1 extras], w2)"
  by (simp add: method_try_def)

lemma method_impl_after_returns:
  "attrs self (''method_'' @ lower (request_method request)) = Some func \<Longrightarrow>
   method_try ext reg self (''method_'' @ lower (request_method request)) func request body
     extras (tr, set_request_id ext w0) = (r, st1) \<Longrightarrow>
   fst (after_method self request extras st1) = Returned u \<Longrightarrow>
   fst (method_impl ext reg self request body extras (tr, w0)) = r"
  by (cases "after_method self request extras st1") (simp add: method_impl_def)

text \<open>
  Claim C4, as the code has it. For an exception for which the registry resolves no
  handler, \<open>_handle_method_exceptions\<close> returns the JSON response with status 500 whose
  body is \<open>{code: 500, message: str(exception)}\<close>, with no data. The dispatch returns
  that response when a before-hook or the verb handler raises such an exception, the
  exception is an \<open>Exception\<close> (what the \<open>except\<close> clause catches), and the after-hooks
  then return.
\<close>

theorem unregistered_exception_500:
  assumes "get_exception_handler reg (Instance e) = None"
  shows "handle_method_exceptions ext reg w e =
       Returned (JsonResponse
         (PDict [(''code'', PInt 500), (''message'', PStr (exc_str e))]) (PInt 500)
         [(''x-cross-request-id'', get_request_id ext w)])
     \<and> (attrs self (''method_'' @ lower (request_method request)) = Some func
        \<and> isinstance (Instance e) Exception_cls
        \<and> ((\<exists>b1 st1. before_method self request body extras (tr, set_request_id ext w0)
                         = (Raised e, b1, st1))
           \<or> (\<exists>u b1 st1 b2 w2.
                 before_method self request body extras (tr, set_request_id ext w0)
                   = (Returned u, b1, st1)
                 \<and> func request b1 extras (snd st1) = (Raised e, b2, w2)))
        \<and> fst (after_method self request extras
                (snd (method_try ext reg self (''method_'' @ lower (request_method request))
                        func request body extras (tr, set_request_id ext w0)))) = Returned ()
        \<longrightarrow> (\<exists>rid. fst (method_impl ext reg self request body extras (tr, w0)) =
               Returned (JsonResponse
                 (PDict [(''code'', PInt 500), (''message'', PStr (exc_str e))]) (PInt 500)
                 [(''x-cross-request-id'', rid)])))"
proof (intro conjI impI)
  show "handle_method_exceptions ext reg w e =
       Returned (JsonResponse
         (PDict [(''code'', PInt 500), (''message'', PStr (exc_str e))]) (PInt 500)
         [(''x-cross-request-id'', get_request_id ext w)])"
    using assms by (rule handle_method_exceptions_unregistered)
  let ?name = "''method_'' @ lower (request_method request)"
  let ?st0 = "(tr, set_request_id ext w0)"
  let ?region = "method_try ext reg self ?name func request body extras ?st0"
  assume a: "attrs self ?name = Some func
        \<and> isinstance (Instance e) Exception_cls
        \<and> ((\<exists>b1 st1. before_method self request body extras ?st0 = (Raised e, b1, st1))
           \<or> (\<exists>u b1 st1 b2 w2.
                 before_method self request body extras ?st0 = (Returned u, b1, st1)
                 \<and> func request b1 extras (snd st1) = (Raised e, b2, w2)))
        \<and> fst (after_method self request extras (snd ?region)) = Returned ()"
  from a have a1: "attrs self ?name = Some func"
    by (rule conjunct1)
  from a have a2: "isinstance (Instance e) Exception_cls"
    by (rule conjunct2 [THEN conjunct1])
  from a have a3: "(\<exists>b1 st1. before_method self request body extras ?st0 = (Raised e, b1, st1))
           \<or> (\<exists>u b1 st1 b2 w2.
                 before_method self request body extras ?st0 = (Returned u, b1, st1)
                 \<and> func request b1 extras (snd st1) = (Raised e, b2, w2))"
    by (rule conjunct2 [THEN conjunct2, THEN conjunct1])
  from a have a4: "fst (after_method self request extras (snd ?region)) = Returned ()"
    by (rule conjunct2 [THEN conjunct2, THEN conjunct2])
  from a3 obtain st where tryst: "?region = method_except ext reg e st"
  proof (elim disjE exE conjE)
    fix b1 st1
    assume "before_method self request body extras ?st0 = (Raised e, b1, st1)"
    then have "?region = method_except ext reg e st1"
      by (rule method_try_before_raises)
    then show ?thesis by (rule that)
  next
    fix u b1 st1 b2 w2
    assume "before_method self request body extras ?st0 = (Returned u, b1, st1)"
      and "func request b1 extras (snd st1) = (Raised e, b2, w2)"
    then have "?region = method_except ext reg e (fst st1 @ [CallVerb ?name request b1 extras], w2)"
      by (rule method_try_verb_raises)
    then show ?thesis by (rule that)
  qed
  have t: "?region = (Returned (JsonResponse
         (PDict [(''code'', PInt 500), (''message'', PStr (exc_str e))]) (PInt 500)
         [(''x-cross-request-id'', get_request_id ext (snd st))]), st)"
    unfolding tryst using assms a2 by (rule method_except_unregistered)
  have a4': "fst (after_method self request extras st) = Returned ()"
    using a4 unfolding t by simp
  have "fst (method_impl ext reg self request body extras (tr, w0)) =
      Returned (JsonResponse
         (PDict [(''code'', PInt 500), (''message'', PStr (exc_str e))]) (PInt 500)
         [(''x-cross-request-id'', get_request_id ext (snd st))])"
    using a1 t a4' by (rule method_impl_after_returns)
  then show "\<exists>rid. fst (method_impl ext reg self request body extras (tr, w0)) =
               Returned (JsonResponse
                 (PDict [(''code'', PInt 500), (''message'', PStr (exc_str e))]) (PInt 500)
                 [(''x-cross-request-id'', rid)])"
    by (rule exI)
qed

theorem unregistered_exception_500_witness:
  "get_exception_handler initial_exception_handlers (Instance (new_exc ValueError_cls ''boom''))
     = None
   \<and> handle_method_exceptions example_externals initial_exception_handlers (1, 1)
       (new_exc ValueError_cls ''boom'')
     = Returned (JsonResponse
         (PDict [(''code'', PInt 500), (''message'', PStr ''boom'')]) (PInt 500)
         [(''x-cross-request-id'', PInt 1)])
   \<and> (\<exists>rid. fst (method_impl example_externals initial_exception_handlers example_endpoint
         (example_request ''POST'') [] [] ([], (0, 0))) =
       Returned (JsonResponse
         (PDict [(''code'', PInt 500), (''message'', PStr ''boom'')]) (PInt 500)
         [(''x-cross-request-id'', rid)]))"
proof (intro conjI)
  let ?e = "new_exc ValueError_cls ''boom''"
  let ?req = "example_request ''POST''"
  let ?name = "''method_'' @ lower (request_method ?req)"
  let ?st0 = "([] :: pyval list event list, set_request_id example_externals (0, 0))"
  show h: "get_exception_handler initial_exception_handlers (Instance ?e) = None"
    by (simp add: get_exception_handler_def dict_contains_def initial_exception_handlers_def
        isinstance_def class_of_def new_exc_def class_defs)
  have "handle_method_exceptions example_externals initial_exception_handlers (1, 1) ?e
     = Returned (JsonResponse
         (PDict [(''code'', PInt 500), (''message'', PStr (exc_str ?e))]) (PInt 500)
         [(''x-cross-request-id'', get_request_id example_externals (1, 1))])"
    by (rule unregistered_exception_500 [OF h, THEN conjunct1])
  then show "handle_method_exceptions example_externals initial_exception_handlers (1, 1) ?e
     = Returned (JsonResponse
         (PDict [(''code'', PInt 500), (''message'', PStr ''boom'')]) (PInt 500)
         [(''x-cross-request-id'', PInt 1)])"
    by (simp add: new_exc_def example_externals_def)
  have name: "?name = ''method_post''"
    by (simp add: example_request_def lower_def lower_char_def)
  have h1: "attrs example_endpoint ?name = Some example_post"
    unfolding name by (simp add: example_endpoint_def example_attrs_def)
  have h2: "isinstance (Instance ?e) Exception_cls"
    by (simp add: isinstance_def class_of_def new_exc_def class_defs)
  have h3: "before_method example_endpoint ?req [] [] ?st0
      = (Returned (), [(''checked'', PBool True)], ([CallBefore 0 ?req [] []], (1, 1)))"
    by (simp add: before_method_def example_endpoint_def example_before_def
        example_externals_def)
  have h4: "example_post ?req [(''checked'', PBool True)] []
       (snd ([CallBefore 0 ?req [] []], (1::nat, 1::nat))) = (Raised ?e, [(''checked'', PBool True)], (1, 1))"
    by (simp add: example_post_def)
  have t: "method_try example_externals initial_exception_handlers example_endpoint ?name
       example_post ?req [] [] ?st0
     = method_except example_externals initial_exception_handlers ?e
         ([CallBefore 0 ?req [] [], CallVerb ?name ?req [(''checked'', PBool True)] []], (1, 1))"
    using h3 h4 by (simp add: method_try_def)
  have h5: "fst (after_method example_endpoint ?req []
       (snd (method_try example_externals initial_exception_handlers example_endpoint ?name
          example_post ?req [] [] ?st0))) = Returned ()"
    unfolding t
    by (simp add: method_except_state after_method_def example_endpoint_def example_after_def)
  have prem: "attrs example_endpoint ?name = Some example_post
        \<and> isinstance (Instance ?e) Exception_cls
        \<and> ((\<exists>b1 st1. before_method example_endpoint ?req [] [] ?st0 = (Raised ?e, b1, st1))
           \<or> (\<exists>u b1 st1 b2 w2.
                 before_method example_endpoint ?req [] [] ?st0 = (Returned u, b1, st1)
                 \<and> example_post ?req b1 [] (snd st1) = (Raised ?e, b2, w2)))
        \<and> fst (after_method example_endpoint ?req []
                (snd (method_try example_externals initial_exception_handlers example_endpoint
                        ?name example_post ?req [] [] ?st0))) = Returned ()"
    apply (intro conjI)
       apply (rule h1)
      apply (rule h2)
     apply (rule disjI2)
     apply (intro exI conjI)
      apply (rule h3)
     apply (rule h4)
    apply (rule h5)
    done
  have "\<exists>rid. fst (method_impl example_externals initial_exception_handlers example_endpoint
         ?req [] [] ([], (0, 0))) =
       Returned (JsonResponse
         (PDict [(''code'', PInt 500), (''message'', PStr (exc_str ?e))]) (PInt 500)
         [(''x-cross-request-id'', rid)])"
    using unregistered_exception_500 [OF h, of example_externals "(1, 1)" example_endpoint
        ?req example_post "[]" "[]" "[]" "(0, 0)", THEN conjunct2, THEN mp, OF prem] .
  then show "\<exists>rid. fst (method_impl example_externals initial_exception_handlers example_endpoint
         ?req [] [] ([], (0, 0))) =
       Returned (JsonResponse
         (PDict [(''code'', PInt 500), (''message'', PStr ''boom'')]) (PInt 500)
         [(''x-cross-request-id'', rid)])"
    by (simp add: new_exc_def)
qed

text \<open>
  Claim C4 as stated fails in two ways. The verb handler raises a \<open>ValueError\<close> for which
  no handler is registered, and the second after-hook raises: the dispatch raises the
  hook's \<open>KeyError\<close> and gives no response. The verb handler raises a
  \<open>KeyboardInterrupt\<close>, for which no handler is registered either: it is no \<open>Exception\<close>,
  the \<open>except\<close> clause lets it pass, and the dispatch raises it.
\<close>

theorem unregistered_exception_counterexample:
  "get_exception_handler initial_exception_handlers
     (Instance (new_exc ValueError_cls ''boom'')) = None
   \<and> example_post (example_request ''POST'') [(''checked'', PBool True)] [] (1, 1)
       = (Raised (new_exc ValueError_cls ''boom''), [(''checked'', PBool True)], (1, 1))
   \<and> fst (method_impl example_externals initial_exception_handlers
         example_endpoint_after_raises (example_request ''POST'') [] [] ([], (0, 0)))
       = Raised (new_exc KeyError_cls ''cleanup'')
   \<and> get_exception_handler initial_exception_handlers
     (Instance (new_exc KeyboardInterrupt_cls ''interrupted'')) = None
   \<and> example_patch (example_request ''PATCH'') [(''checked'', PBool True)] [] (1, 1)
       = (Raised (new_exc KeyboardInterrupt_cls ''interrupted''),
          [(''checked'', PBool True)], (1, 1))
   \<and> fst (method_impl example_externals initial_exception_handlers
         example_endpoint (example_request ''PATCH'') [] [] ([], (0, 0)))
       = Raised (new_exc KeyboardInterrupt_cls ''interrupted'')"
  by (simp add: example_defs dispatch_defs class_defs)

end
